theory Spec2Isabelle
  imports Complex_Main
begin

section \<open>Values, errors and results\<close>

text \<open>
  The embedding follows \<^verbatim>\<open>src/three-ui/DisplayObject.js\<close> and \<^verbatim>\<open>ThreeUI.js\<close>
  (with \<^verbatim>\<open>BitmapText.js\<close>, \<^verbatim>\<open>Rectangle.js\<close>, \<^verbatim>\<open>Sprite.js\<close> and \<^verbatim>\<open>Text.js\<close> for the
  constructors).

  JavaScript numbers are modelled as exact rationals: rounding of IEEE doubles is not
  followed, and a computation whose JavaScript value would be \<^verbatim>\<open>NaN\<close> or an infinity
  ends in the error \<open>NonFinite\<close>, which marks the border of the number model (JavaScript
  itself would carry the \<^verbatim>\<open>NaN\<close> on).

  Objects live in a heap and are named by references, so that \<^verbatim>\<open>!==\<close> on the compound
  fields (\<^verbatim>\<open>pivot\<close>, \<^verbatim>\<open>anchor\<close>, \<^verbatim>\<open>stretch\<close>, \<^verbatim>\<open>offset\<close>, \<^verbatim>\<open>parent\<close>) is the comparison
  of references that it is in the source.
\<close>

type_synonym ref = nat

text \<open>The dynamically typed slots: \<open>parent\<close>, the four offset edges, and the fields that
  only some node kinds have. \<open>Node r\<close> is a reference to a DisplayObject, \<open>Object r\<close> a
  reference to one of the plain objects a DisplayObject owns (a pivot, an anchor, a stretch
  or an offset object); none of these has a property \<^verbatim>\<open>visible\<close>.\<close>

datatype jsvalue = Undefined | Null | Bool bool | Num rat | Str string | Node ref | Object ref

text \<open>\<open>ParentError\<close> is the \<^verbatim>\<open>Error\<close> thrown by \<^verbatim>\<open>getParentBounds\<close>; \<open>TypeError\<close> is what
  \<^verbatim>\<open>value.match(...)[1]\<close> throws on a value that is no percentage string.
  \<open>CyclicParentError\<close> is the error the specification names; no function of the source
  constructs it.\<close>

datatype error = ParentError | TypeError | CyclicParentError | NonFinite

text \<open>A call either does not return within the allowed depth of the call stack (\<open>None\<close>),
  throws (\<open>Some (Inl e)\<close>) or returns (\<open>Some (Inr a)\<close>).\<close>

type_synonym 'a res = "(error + 'a) option"

definition returnR :: "'a \<Rightarrow> 'a res" where
  "returnR a = Some (Inr a)"

definition throwR :: "error \<Rightarrow> 'a res" where
  "throwR e = Some (Inl e)"

definition bindR :: "'a res \<Rightarrow> ('a \<Rightarrow> 'b res) \<Rightarrow> 'b res" where
  "bindR m f = (case m of None \<Rightarrow> None | Some (Inl e) \<Rightarrow> Some (Inl e) | Some (Inr a) \<Rightarrow> f a)"

text \<open>JavaScript truthiness, for \<^verbatim>\<open>this.parent && ...\<close>.\<close>

fun truthy :: "jsvalue \<Rightarrow> bool" where
  "truthy Undefined = False"
| "truthy Null = False"
| "truthy (Bool b) = b"
| "truthy (Num r) = (r \<noteq> 0)"
| "truthy (Str s) = (s \<noteq> [])"
| "truthy (Node r) = True"
| "truthy (Object r) = True"

section \<open>The data model\<close>

text \<open>Objects \<^verbatim>\<open>{x, y}\<close> (a position, a pivot, an anchor, a stretch) and
  \<^verbatim>\<open>{x, y, width, height}\<close> (bounds). A DisplayObject starts with the same four fields;
  there they hold a number or \<^verbatim>\<open>null\<close> (\<open>None\<close>): a Sprite whose asset is missing is
  constructed with \<^verbatim>\<open>width\<close> and \<^verbatim>\<open>height\<close> \<^verbatim>\<open>null\<close>.\<close>

record 'a xy =
  x :: 'a
  y :: 'a

record 'a rect = "'a xy" +
  width :: 'a
  height :: 'a

type_synonym bounds = "rat rect"

record dimensions =
  dwidth :: rat
  dheight :: rat

text \<open>The keys of an offset object, in the order of \<^verbatim>\<open>Object.keys(offset)\<close>.\<close>

datatype edge = Left | Top | Right | Bottom

text \<open>\<^verbatim>\<open>anchors.js\<close>\<close>

definition anchors_center :: nat where "anchors_center = 1"
definition anchors_left :: nat where "anchors_left = 2"
definition anchors_right :: nat where "anchors_right = 3"
definition anchors_top :: nat where "anchors_top = 4"
definition anchors_bottom :: nat where "anchors_bottom = 5"

text \<open>A DisplayObject. \<open>own_visible\<close> is the backing slot \<^verbatim>\<open>_visible\<close> of the visibility
  accessor; \<open>pivot\<close>, \<open>anchor\<close>, \<open>stretch\<close> and \<open>offset\<close> are references to the objects the
  constructor allocates; \<open>props\<close> holds the observed fields that belong to a node kind
  (\<^verbatim>\<open>text\<close>, \<^verbatim>\<open>scale\<close>, \<^verbatim>\<open>color\<close>, ...).\<close>

record DisplayObject = "rat option rect" +
  rotation :: rat
  alpha :: rat
  own_visible :: bool
  pivot :: ref
  anchor :: ref
  smoothing :: bool
  stretch :: ref
  offset :: ref
  parent :: jsvalue
  props :: "string \<Rightarrow> jsvalue"

record heap =
  nodes :: "ref \<Rightarrow> DisplayObject"
  pivots :: "ref \<Rightarrow> rat xy"
  anchors :: "ref \<Rightarrow> nat xy"
  stretches :: "ref \<Rightarrow> bool xy"
  offsets :: "ref \<Rightarrow> edge \<Rightarrow> jsvalue"
  fresh :: ref

text \<open>A click listener: the callback (named by a number; what it does is given to
  \<^verbatim>\<open>clickHandler\<close> separately) and the node it was registered for.\<close>

record listener =
  callback :: nat
  displayObject :: ref

text \<open>The calls made on the 2d context that the model records: clearing, and the
  \<^verbatim>\<open>draw\<close> method of a node kind with the rectangle it is given. What a node kind paints is
  outside the model.\<close>

datatype op = ClearRect bounds | ClearCanvas | Draw ref bounds

text \<open>The ThreeUI object. \<open>ui_width\<close> and \<open>ui_height\<close> are \<^verbatim>\<open>this.width\<close> and
  \<^verbatim>\<open>this.height\<close>; \<open>gameCanvas\<close> is the width and height of the host canvas and
  \<open>gameCanvasRect\<close> the \<^verbatim>\<open>left\<close>, \<^verbatim>\<open>top\<close> and \<^verbatim>\<open>height\<close> of its bounding client
  rectangle; \<open>needsUpdate\<close> is \<^verbatim>\<open>texture.needsUpdate\<close>; \<open>context2d\<close> is the record of the
  calls on \<^verbatim>\<open>this.context\<close>, oldest first.\<close>

record ThreeUI =
  displayObjects :: "ref list"
  click :: "listener list"
  clearRect :: "bounds option"
  gameCanvas :: "rat \<times> rat"
  gameCanvasRect :: "rat \<times> rat \<times> rat"
  ui_height :: rat
  ui_width :: rat
  renderOnQuad :: bool
  shouldReDraw :: bool
  needsUpdate :: bool
  listeningToTouchEvents :: bool
  context2d :: "op list"

section \<open>DisplayObject.js: the bounds resolver\<close>

text \<open>Every function below takes the heap and \<^verbatim>\<open>this\<close>. Where the source calls
  \<^verbatim>\<open>this.getParentBounds()\<close> the model consults \<open>gpb\<close>, the outcome of that call: the
  functions between \<^verbatim>\<open>getBounds\<close> and \<^verbatim>\<open>getParentBounds\<close> write nothing, so each of
  the calls made while one \<^verbatim>\<open>getBounds\<close> runs has the same outcome.\<close>

text \<open>\<^verbatim>\<open>value.match(/^([0-9\.]+)%$/)\<close>: the captured group, when the string is one or more
  digits and dots followed by a percent sign.\<close>

definition isDigit :: "char \<Rightarrow> bool" where
  "isDigit c = (c \<in> set ''0123456789'')"

definition matchPercent :: "string \<Rightarrow> string option" where
  "matchPercent s =
     (if s \<noteq> [] \<and> last s = CHR ''%'' \<and> butlast s \<noteq> []
         \<and> list_all (\<lambda>c. isDigit c \<or> c = CHR ''.'') (butlast s)
      then Some (butlast s) else None)"

definition digitValue :: "char \<Rightarrow> nat" where
  "digitValue c = of_char c - of_char CHR ''0''"

text \<open>The value of a string of decimal digits, and of the digits after a decimal point.\<close>

fun digitsValue :: "nat \<Rightarrow> string \<Rightarrow> nat" where
  "digitsValue acc [] = acc"
| "digitsValue acc (c # cs) = digitsValue (10 * acc + digitValue c) cs"

definition fractionValue :: "string \<Rightarrow> rat" where
  "fractionValue ds = of_nat (digitsValue 0 ds) / 10 ^ length ds"

text \<open>\<^verbatim>\<open>parseFloat\<close> on a string of digits and dots (the only strings the source passes
  to it): the value of the longest prefix that is a decimal literal, which is digits, then
  optionally a dot and digits, or a dot and at least one digit. \<open>None\<close> is \<^verbatim>\<open>NaN\<close>: the
  string starts with a dot that no digit follows.\<close>

definition parseFloat :: "string \<Rightarrow> rat option" where
  "parseFloat s =
     (let ip = takeWhile isDigit s; rest = dropWhile isDigit s in
      if ip \<noteq> [] then
        (case rest of
           [] \<Rightarrow> Some (of_nat (digitsValue 0 ip))
         | c # cs \<Rightarrow>
             if c = CHR ''.'' then Some (of_nat (digitsValue 0 ip) + fractionValue (takeWhile isDigit cs))
             else Some (of_nat (digitsValue 0 ip)))
      else
        (case rest of
           [] \<Rightarrow> None
         | c # cs \<Rightarrow>
             if c = CHR ''.'' \<and> takeWhile isDigit cs \<noteq> [] then Some (fractionValue (takeWhile isDigit cs))
             else None))"

text \<open>The body of the loop of \<^verbatim>\<open>getOffsetInCanvas\<close> for one key: a number is kept;
  anything else first fetches the parent's bounds, then is matched, parsed and scaled by
  the parent's width.\<close>

definition offsetValue :: "bounds res \<Rightarrow> jsvalue \<Rightarrow> rat res" where
  "offsetValue gpb value =
     (case value of
        Num v \<Rightarrow> returnR v
      | Str s \<Rightarrow>
          bindR gpb (\<lambda>parentBounds.
            case matchPercent s of
              None \<Rightarrow> throwR TypeError
            | Some m \<Rightarrow>
                (case parseFloat m of
                   None \<Rightarrow> throwR NonFinite
                 | Some percValue \<Rightarrow> returnR (percValue / 100 * width parentBounds)))
      | _ \<Rightarrow> bindR gpb (\<lambda>parentBounds. throwR TypeError))"

fun offsetLoop :: "bounds res \<Rightarrow> (edge \<Rightarrow> jsvalue) \<Rightarrow> edge list \<Rightarrow> (edge \<Rightarrow> rat) \<Rightarrow> (edge \<Rightarrow> rat) res" where
  "offsetLoop gpb offs [] acc = returnR acc"
| "offsetLoop gpb offs (key # keys) acc =
     bindR (offsetValue gpb (offs key)) (\<lambda>v. offsetLoop gpb offs keys (acc(key := v)))"

definition getOffsetInCanvas :: "heap \<Rightarrow> ref \<Rightarrow> bounds res \<Rightarrow> (edge \<Rightarrow> rat) res" where
  "getOffsetInCanvas h this gpb =
     offsetLoop gpb (offsets h (offset (nodes h this))) [Left, Top, Right, Bottom] (\<lambda>key. 0)"

text \<open>\<^verbatim>\<open>this.width * this.pivot.x\<close>: a \<^verbatim>\<open>null\<close> width counts as 0 in the product.\<close>

definition toNumber :: "rat option \<Rightarrow> rat" where
  "toNumber v = (case v of Some r \<Rightarrow> r | None \<Rightarrow> 0)"

definition adjustPositionForPivot :: "heap \<Rightarrow> ref \<Rightarrow> rat \<Rightarrow> rat \<Rightarrow> rat xy" where
  "adjustPositionForPivot h this x0 y0 =
     (let d = nodes h this; pv = pivots h (pivot d) in
      \<lparr>x = x0 - toNumber (width d) * x pv, y = y0 - toNumber (height d) * y pv\<rparr>)"

definition adjustPositionForAnchor :: "heap \<Rightarrow> ref \<Rightarrow> bounds res \<Rightarrow> rat \<Rightarrow> rat \<Rightarrow> rat xy res" where
  "adjustPositionForAnchor h this gpb x0 y0 =
     bindR gpb (\<lambda>parentBounds.
       let d = nodes h this; st = stretches h (stretch d); an = anchors h (anchor d);
           x1 = (if \<not> x st then
                   (if x an = anchors_left then x parentBounds + x0
                    else if x an = anchors_right then x parentBounds + width parentBounds - x0
                    else if x an = anchors_center then x parentBounds + width parentBounds * (1 / 2) + x0
                    else x0)
                 else x0);
           y1 = (if \<not> y st then
                   (if y an = anchors_top then y parentBounds + y0
                    else if y an = anchors_bottom then y parentBounds + height parentBounds - y0
                    else if y an = anchors_center then y parentBounds + height parentBounds * (1 / 2) + y0
                    else y0)
                 else y0)
       in returnR \<lparr>x = x1, y = y1\<rparr>)"

definition determinePositionInCanvas :: "heap \<Rightarrow> ref \<Rightarrow> bounds res \<Rightarrow> rat xy res" where
  "determinePositionInCanvas h this gpb =
     (let d = nodes h this; st = stretches h (stretch d);
          position = \<lparr>x = (case x d of Some v \<Rightarrow> v | None \<Rightarrow> 0),
                      y = (case y d of Some v \<Rightarrow> v | None \<Rightarrow> 0)\<rparr>
      in bindR
           (if x st \<or> y st then
              bindR gpb (\<lambda>parentBounds.
                bindR (getOffsetInCanvas h this gpb) (\<lambda>offs.
                  returnR \<lparr>x = (if x st then x parentBounds + offs Left else x position),
                           y = (if y st then y parentBounds + offs Top else y position)\<rparr>))
            else returnR position)
           (\<lambda>position.
              bindR (adjustPositionForAnchor h this gpb (x position) (y position)) (\<lambda>position.
                returnR (adjustPositionForPivot h this (x position) (y position)))))"

definition determineDimensionsInCanvas :: "heap \<Rightarrow> ref \<Rightarrow> bounds res \<Rightarrow> dimensions res" where
  "determineDimensionsInCanvas h this gpb =
     (let d = nodes h this; st = stretches h (stretch d);
          dims = \<lparr>dwidth = (case width d of Some v \<Rightarrow> v | None \<Rightarrow> 0),
                  dheight = (case height d of Some v \<Rightarrow> v | None \<Rightarrow> 0)\<rparr>
      in if x st \<or> y st then
           bindR gpb (\<lambda>parentBounds.
             bindR (getOffsetInCanvas h this gpb) (\<lambda>offs.
               returnR \<lparr>dwidth = (if x st then width parentBounds - offs Left - offs Right
                                  else dwidth dims),
                        dheight = (if y st then height parentBounds - offs Top - offs Bottom
                                   else dheight dims)\<rparr>))
         else returnR dims)"

text \<open>\<^verbatim>\<open>getParentBounds\<close>. \<open>parent_getBounds\<close> is the method \<^verbatim>\<open>getBounds\<close> of the
  parent.\<close>

definition getParentBounds :: "ThreeUI \<Rightarrow> heap \<Rightarrow> ref \<Rightarrow> (ref \<Rightarrow> bounds res) \<Rightarrow> bounds res" where
  "getParentBounds ui h this parent_getBounds =
     (case parent (nodes h this) of
        Undefined \<Rightarrow> returnR \<lparr>x = 0, y = 0, width = ui_width ui, height = ui_height ui\<rparr>
      | Node p \<Rightarrow> parent_getBounds p
      | _ \<Rightarrow> throwR ParentError)"

text \<open>\<^verbatim>\<open>getBounds\<close>. The first argument bounds the depth of the recursion through
  \<^verbatim>\<open>this.parent.getBounds()\<close>, as the call stack of the engine does: \<open>None\<close> says that the
  call has not returned within that many nested frames.\<close>

fun getBounds :: "nat \<Rightarrow> ThreeUI \<Rightarrow> heap \<Rightarrow> ref \<Rightarrow> bounds res" where
  "getBounds 0 ui h this = None"
| "getBounds (Suc n) ui h this =
     (let gpb = getParentBounds ui h this (\<lambda>p. getBounds n ui h p) in
      bindR (determinePositionInCanvas h this gpb) (\<lambda>position.
        bindR (determineDimensionsInCanvas h this gpb) (\<lambda>dims.
          returnR \<lparr>x = x position, y = y position,
                   width = dwidth dims, height = dheight dims\<rparr>)))"

section \<open>DisplayObject.js: visibility and rendering\<close>

text \<open>The getter of \<^verbatim>\<open>_proxied_visible\<close>, which every read of \<^verbatim>\<open>visible\<close> on an observed
  node reaches. \<^verbatim>\<open>this.parent.visible\<close> is the same getter on the parent when the parent is
  a DisplayObject, and \<^verbatim>\<open>undefined\<close> on any other truthy value. The first argument bounds
  the depth of the recursion, as for \<open>getBounds\<close>.\<close>

fun proxied_visible :: "nat \<Rightarrow> heap \<Rightarrow> ref \<Rightarrow> bool option" where
  "proxied_visible 0 h this = None"
| "proxied_visible (Suc n) h this =
     (let d = nodes h this in
      case parent d of
        Node p \<Rightarrow>
          (if p \<noteq> this then
             (case proxied_visible n h p of
                None \<Rightarrow> None
              | Some v \<Rightarrow> if \<not> v then Some False else Some (own_visible d))
           else Some (own_visible d))
      | v \<Rightarrow> if truthy v then Some False else Some (own_visible d))"

definition shouldReceiveEvents :: "nat \<Rightarrow> heap \<Rightarrow> ref \<Rightarrow> bool option" where
  "shouldReceiveEvents n h this = proxied_visible n h this"


section \<open>ThreeUI.js\<close>





section \<open>The constructors and the factory methods\<close>

text \<open>An argument of a constructor: left out (\<^verbatim>\<open>undefined\<close>), \<^verbatim>\<open>null\<close> or a number.\<close>

datatype arg = Omitted | IsNull | Number rat

text \<open>\<^verbatim>\<open>typeof a !== 'undefined' ? a : dflt\<close>\<close>

fun orDefault :: "arg \<Rightarrow> rat option \<Rightarrow> rat option" where
  "orDefault Omitted dflt = dflt"
| "orDefault IsNull dflt = None"
| "orDefault (Number r) dflt = Some r"

fun toArg :: "rat option \<Rightarrow> arg" where
  "toArg None = IsNull"
| "toArg (Some r) = Number r"

text \<open>The constructor \<^verbatim>\<open>DisplayObject\<close>, run on a new object whose kind has already set the
  fields \<open>ps\<close>. The object and the four objects it owns take the next five references.\<close>

definition DisplayObject_new :: "heap \<Rightarrow> (string \<Rightarrow> jsvalue) \<Rightarrow> arg \<Rightarrow> arg \<Rightarrow> arg \<Rightarrow> arg \<Rightarrow> ref \<times> heap" where
  "DisplayObject_new h ps ax ay aw ah =
     (let this = fresh h in
      (this,
       h\<lparr>nodes := (nodes h)(this :=
            \<lparr>x = orDefault ax (Some 0), y = orDefault ay (Some 0),
             width = orDefault aw (Some 0), height = orDefault ah (Some 0),
             rotation = 0, alpha = 1, own_visible = True,
             pivot = this + 1, anchor = this + 2, smoothing = True,
             stretch = this + 3, offset = this + 4,
             parent = Undefined, props = ps\<rparr>),
         pivots := (pivots h)(this + 1 := \<lparr>x = 1 / 2, y = 1 / 2\<rparr>),
         anchors := (anchors h)(this + 2 := \<lparr>x = anchors_left, y = anchors_top\<rparr>),
         stretches := (stretches h)(this + 3 := \<lparr>x = False, y = False\<rparr>),
         offsets := (offsets h)(this + 4 := (\<lambda>key. Num 0)),
         fresh := this + 5\<rparr>))"

definition Rectangle_new :: "heap \<Rightarrow> string \<Rightarrow> arg \<Rightarrow> arg \<Rightarrow> arg \<Rightarrow> arg \<Rightarrow> ref \<times> heap" where
  "Rectangle_new h color ax ay aw ah =
     DisplayObject_new h ((\<lambda>k. Undefined)(''color'' := Str color))
       (toArg (orDefault ax (Some 0))) (toArg (orDefault ay (Some 0)))
       (toArg (orDefault aw (Some 1))) (toArg (orDefault ah (Some 1)))"

text \<open>\<^verbatim>\<open>Sprite\<close>: \<open>assetSize\<close> is the width and height of the asset (or of the frame of the
  sheet) that \<^verbatim>\<open>setAssetPath\<close> found, \<open>None\<close> when it found none. Loading and the errors
  of \<^verbatim>\<open>parseSheet\<close> are outside the model.\<close>

definition Sprite_new :: "heap \<Rightarrow> string \<Rightarrow> (rat \<times> rat) option \<Rightarrow> arg \<Rightarrow> arg \<Rightarrow> arg \<Rightarrow> arg \<Rightarrow> ref \<times> heap" where
  "Sprite_new h assetPath assetSize ax ay aw ah =
     (let w0 = orDefault aw None; h0 = orDefault ah None;
          w1 = (case assetSize of
                  Some (assetW, assetH) \<Rightarrow> (case w0 of None \<Rightarrow> Some assetW | Some v \<Rightarrow> Some v)
                | None \<Rightarrow> w0);
          h1 = (case assetSize of
                  Some (assetW, assetH) \<Rightarrow> (case h0 of None \<Rightarrow> Some assetH | Some v \<Rightarrow> Some v)
                | None \<Rightarrow> h0)
      in DisplayObject_new h ((\<lambda>k. Undefined)(''assetPath'' := Str assetPath))
           (toArg (orDefault ax (Some 0))) (toArg (orDefault ay (Some 0))) (toArg w1) (toArg h1))"

text \<open>\<^verbatim>\<open>Text(ui, text, size, font, color, x, y)\<close>: the constructor of DisplayObject is
  called with \<^verbatim>\<open>x\<close> and \<^verbatim>\<open>y\<close> only.\<close>

definition Text_new :: "heap \<Rightarrow> jsvalue \<Rightarrow> jsvalue \<Rightarrow> arg \<Rightarrow> arg \<Rightarrow> ref \<times> heap" where
  "Text_new h txt color ax ay =
     DisplayObject_new h
       ((\<lambda>k. Undefined)(''textAlign'' := Str ''left'',
          ''text'' := (if txt = Undefined then Str [] else txt),
          ''color'' := (if color = Undefined then Str ''#000000'' else color)))
       (toArg (orDefault ax (Some 0))) (toArg (orDefault ay (Some 0))) Omitted Omitted"

text \<open>\<^verbatim>\<open>BitmapText\<close>: \<open>dims\<close> is what \<^verbatim>\<open>calculateDimensions\<close> returns for the text and the
  sheet. After the constructor of DisplayObject the pivot object is overwritten in
  place.\<close>

definition BitmapText_new :: "heap \<Rightarrow> string \<Rightarrow> arg \<Rightarrow> rat \<times> rat \<Rightarrow> arg \<Rightarrow> arg \<Rightarrow> ref \<times> heap" where
  "BitmapText_new h txt scale dims ax ay =
     (let (this, h1) =
            DisplayObject_new h
              ((\<lambda>k. Undefined)(''scale'' := (case orDefault scale (Some 1) of
                                                Some v \<Rightarrow> Num v | None \<Rightarrow> Null),
                 ''text'' := Str txt))
              (toArg (orDefault ax (Some 0))) (toArg (orDefault ay (Some 0)))
              (Number (fst dims)) (Number (snd dims));
          pv = pivot (nodes h1 this)
      in (this, h1\<lparr>pivots := (pivots h1)(pv := \<lparr>x = 0, y = 0\<rparr>)\<rparr>))"

text \<open>The factory methods: construct, push on \<^verbatim>\<open>displayObjects\<close>, observe. Observing
  installs the accessors (\<open>getter\<close> and \<open>setter\<close> below) and leaves every value as it is:
  the fields of the record are the backing slots.\<close>

definition register :: "ThreeUI \<Rightarrow> ref \<times> heap \<Rightarrow> ref \<times> ThreeUI \<times> heap" where
  "register ui created =
     (fst created, ui\<lparr>displayObjects := displayObjects ui @ [fst created]\<rparr>, snd created)"

definition createSprite :: "ThreeUI \<times> heap \<Rightarrow> string \<Rightarrow> (rat \<times> rat) option \<Rightarrow> arg \<Rightarrow> arg \<Rightarrow> arg \<Rightarrow> arg \<Rightarrow> ref \<times> ThreeUI \<times> heap" where
  "createSprite s imagePath assetSize ax ay aw ah =
     register (fst s) (Sprite_new (snd s) imagePath assetSize ax ay aw ah)"

text \<open>\<^verbatim>\<open>createSpriteFromSheet\<close>: \<open>frameSize\<close> is the size of the frame that \<^verbatim>\<open>parseSheet\<close>
  found in the data of the sheet (\<^verbatim>\<open>this.sheetImageData['frame']\<close>), and \<open>sheet\<close> tells
  whether \<^verbatim>\<open>this.sheet\<close>, the image of the sheet that the asset loader returned, is truthy.
  The constructor takes the size of the frame only under
  \<^verbatim>\<open>this.sheet && this.sheetImageData\<close>: without the image the width and the height that
  were left out stay \<^verbatim>\<open>null\<close>.\<close>

definition createSpriteFromSheet :: "ThreeUI \<times> heap \<Rightarrow> string \<Rightarrow> bool \<Rightarrow> rat \<times> rat \<Rightarrow> arg \<Rightarrow> arg \<Rightarrow> arg \<Rightarrow> arg \<Rightarrow> ref \<times> ThreeUI \<times> heap" where
  "createSpriteFromSheet s imagePath sheet frameSize ax ay aw ah =
     register (fst s)
       (Sprite_new (snd s) imagePath (if sheet then Some frameSize else None) ax ay aw ah)"

definition createRectangle :: "ThreeUI \<times> heap \<Rightarrow> string \<Rightarrow> arg \<Rightarrow> arg \<Rightarrow> arg \<Rightarrow> arg \<Rightarrow> ref \<times> ThreeUI \<times> heap" where
  "createRectangle s color ax ay aw ah =
     register (fst s) (Rectangle_new (snd s) color ax ay aw ah)"

text \<open>\<^verbatim>\<open>createText(text, font, color, x, y)\<close> calls
  \<^verbatim>\<open>new Text(this, text, font, color, x, y)\<close>, whose parameters are
  \<^verbatim>\<open>(ui, text, size, font, color, x, y)\<close>: the constructor takes \<^verbatim>\<open>x\<close> for its
  \<^verbatim>\<open>color\<close>, \<^verbatim>\<open>y\<close> for its \<^verbatim>\<open>x\<close>, and has no \<^verbatim>\<open>y\<close>.\<close>

definition createText :: "ThreeUI \<times> heap \<Rightarrow> string \<Rightarrow> string \<Rightarrow> string \<Rightarrow> arg \<Rightarrow> arg \<Rightarrow> ref \<times> ThreeUI \<times> heap" where
  "createText s txt font color ax ay =
     register (fst s)
       (Text_new (snd s) (Str txt)
          (case ax of Omitted \<Rightarrow> Undefined | IsNull \<Rightarrow> Null | Number v \<Rightarrow> Num v) ay Omitted)"

definition createBitmapText :: "ThreeUI \<times> heap \<Rightarrow> string \<Rightarrow> arg \<Rightarrow> rat \<times> rat \<Rightarrow> arg \<Rightarrow> arg \<Rightarrow> ref \<times> ThreeUI \<times> heap" where
  "createBitmapText s txt sz dims ax ay =
     register (fst s) (BitmapText_new (snd s) txt sz dims ax ay)"

section \<open>The dirty tracker\<close>

text \<open>\<^verbatim>\<open>dirtyProperties\<close>, and the observed properties as a type.\<close>

definition dirtyProperties :: "string list" where
  "dirtyProperties =
     [''x'', ''y'', ''width'', ''height'', ''rotation'', ''alpha'', ''visible'', ''pivot'',
      ''anchor'', ''smoothing'', ''stretch'', ''offset'', ''text'', ''scale'', ''parent'',
      ''textAlign'', ''assetPath'', ''color'', ''left'', ''right'', ''up'', ''down'',
      ''ActiveInvoke'']"

datatype property =
    P_x | P_y | P_width | P_height | P_rotation | P_alpha | P_visible | P_pivot
  | P_anchor | P_smoothing | P_stretch | P_offset | P_text | P_scale | P_parent
  | P_textAlign | P_assetPath | P_color | P_left | P_right | P_up | P_down
  | P_ActiveInvoke

fun propName :: "property \<Rightarrow> string" where
  "propName P_x = ''x''"
| "propName P_y = ''y''"
| "propName P_width = ''width''"
| "propName P_height = ''height''"
| "propName P_rotation = ''rotation''"
| "propName P_alpha = ''alpha''"
| "propName P_visible = ''visible''"
| "propName P_pivot = ''pivot''"
| "propName P_anchor = ''anchor''"
| "propName P_smoothing = ''smoothing''"
| "propName P_stretch = ''stretch''"
| "propName P_offset = ''offset''"
| "propName P_text = ''text''"
| "propName P_scale = ''scale''"
| "propName P_parent = ''parent''"
| "propName P_textAlign = ''textAlign''"
| "propName P_assetPath = ''assetPath''"
| "propName P_color = ''color''"
| "propName P_left = ''left''"
| "propName P_right = ''right''"
| "propName P_up = ''up''"
| "propName P_down = ''down''"
| "propName P_ActiveInvoke = ''ActiveInvoke''"

definition allProperties :: "property list" where
  "allProperties =
     [P_x, P_y, P_width, P_height, P_rotation, P_alpha, P_visible, P_pivot, P_anchor,
      P_smoothing, P_stretch, P_offset, P_text, P_scale, P_parent, P_textAlign,
      P_assetPath, P_color, P_left, P_right, P_up, P_down, P_ActiveInvoke]"

text \<open>A number or \<^verbatim>\<open>null\<close> as a JavaScript value.\<close>

fun numval :: "rat option \<Rightarrow> jsvalue" where
  "numval None = Null"
| "numval (Some r) = Num r"

text \<open>The backing slot \<^verbatim>\<open>object['_proxied_' + prop]\<close>; for \<^verbatim>\<open>visible\<close> it is the slot
  \<^verbatim>\<open>_visible\<close> that the accessor \<^verbatim>\<open>_proxied_visible\<close> of the prototype reads and
  writes.\<close>

fun backing :: "heap \<Rightarrow> ref \<Rightarrow> property \<Rightarrow> jsvalue" where
  "backing h this P_x = numval (x (nodes h this))"
| "backing h this P_y = numval (y (nodes h this))"
| "backing h this P_width = numval (width (nodes h this))"
| "backing h this P_height = numval (height (nodes h this))"
| "backing h this P_rotation = Num (rotation (nodes h this))"
| "backing h this P_alpha = Num (alpha (nodes h this))"
| "backing h this P_visible = Bool (own_visible (nodes h this))"
| "backing h this P_pivot = Object (pivot (nodes h this))"
| "backing h this P_anchor = Object (anchor (nodes h this))"
| "backing h this P_smoothing = Bool (smoothing (nodes h this))"
| "backing h this P_stretch = Object (stretch (nodes h this))"
| "backing h this P_offset = Object (offset (nodes h this))"
| "backing h this P_parent = parent (nodes h this)"
| "backing h this p = props (nodes h this) (propName p)"

text \<open>The getter that \<^verbatim>\<open>observeDirtyProperties\<close> installs: \<^verbatim>\<open>object[proxyKey]\<close>, which
  for \<^verbatim>\<open>visible\<close> is the getter of the prototype.\<close>

definition getter :: "nat \<Rightarrow> heap \<Rightarrow> ref \<Rightarrow> property \<Rightarrow> jsvalue option" where
  "getter n h this p =
     (if p = P_visible then map_option Bool (proxied_visible n h this)
      else Some (backing h this p))"

text \<open>A write of an observed property, with a value of the type the field has in the
  model.\<close>

datatype assignment =
    Set_x "rat option" | Set_y "rat option" | Set_width "rat option" | Set_height "rat option"
  | Set_rotation rat | Set_alpha rat | Set_visible bool | Set_pivot ref | Set_anchor ref
  | Set_smoothing bool | Set_stretch ref | Set_offset ref | Set_text jsvalue
  | Set_scale jsvalue | Set_parent jsvalue | Set_textAlign jsvalue | Set_assetPath jsvalue
  | Set_color jsvalue | Set_left jsvalue | Set_right jsvalue | Set_up jsvalue
  | Set_down jsvalue | Set_ActiveInvoke jsvalue

fun target :: "assignment \<Rightarrow> property" where
  "target (Set_x v) = P_x"
| "target (Set_y v) = P_y"
| "target (Set_width v) = P_width"
| "target (Set_height v) = P_height"
| "target (Set_rotation v) = P_rotation"
| "target (Set_alpha v) = P_alpha"
| "target (Set_visible v) = P_visible"
| "target (Set_pivot v) = P_pivot"
| "target (Set_anchor v) = P_anchor"
| "target (Set_smoothing v) = P_smoothing"
| "target (Set_stretch v) = P_stretch"
| "target (Set_offset v) = P_offset"
| "target (Set_text v) = P_text"
| "target (Set_scale v) = P_scale"
| "target (Set_parent v) = P_parent"
| "target (Set_textAlign v) = P_textAlign"
| "target (Set_assetPath v) = P_assetPath"
| "target (Set_color v) = P_color"
| "target (Set_left v) = P_left"
| "target (Set_right v) = P_right"
| "target (Set_up v) = P_up"
| "target (Set_down v) = P_down"
| "target (Set_ActiveInvoke v) = P_ActiveInvoke"

fun written :: "assignment \<Rightarrow> jsvalue" where
  "written (Set_x v) = numval v"
| "written (Set_y v) = numval v"
| "written (Set_width v) = numval v"
| "written (Set_height v) = numval v"
| "written (Set_rotation v) = Num v"
| "written (Set_alpha v) = Num v"
| "written (Set_visible v) = Bool v"
| "written (Set_pivot v) = Object v"
| "written (Set_anchor v) = Object v"
| "written (Set_smoothing v) = Bool v"
| "written (Set_stretch v) = Object v"
| "written (Set_offset v) = Object v"
| "written (Set_text v) = v"
| "written (Set_scale v) = v"
| "written (Set_parent v) = v"
| "written (Set_textAlign v) = v"
| "written (Set_assetPath v) = v"
| "written (Set_color v) = v"
| "written (Set_left v) = v"
| "written (Set_right v) = v"
| "written (Set_up v) = v"
| "written (Set_down v) = v"
| "written (Set_ActiveInvoke v) = v"

definition setNode :: "heap \<Rightarrow> ref \<Rightarrow> (DisplayObject \<Rightarrow> DisplayObject) \<Rightarrow> heap" where
  "setNode h this f = h\<lparr>nodes := (nodes h)(this := f (nodes h this))\<rparr>"

definition setKind :: "heap \<Rightarrow> ref \<Rightarrow> property \<Rightarrow> jsvalue \<Rightarrow> heap" where
  "setKind h this p v = setNode h this (\<lambda>d. d\<lparr>props := (props d)(propName p := v)\<rparr>)"

text \<open>\<^verbatim>\<open>object[proxyKey] = value\<close>\<close>

fun store :: "assignment \<Rightarrow> heap \<Rightarrow> ref \<Rightarrow> heap" where
  "store (Set_x v) h this = setNode h this (\<lambda>d. d\<lparr>x := v\<rparr>)"
| "store (Set_y v) h this = setNode h this (\<lambda>d. d\<lparr>y := v\<rparr>)"
| "store (Set_width v) h this = setNode h this (\<lambda>d. d\<lparr>width := v\<rparr>)"
| "store (Set_height v) h this = setNode h this (\<lambda>d. d\<lparr>height := v\<rparr>)"
| "store (Set_rotation v) h this = setNode h this (\<lambda>d. d\<lparr>rotation := v\<rparr>)"
| "store (Set_alpha v) h this = setNode h this (\<lambda>d. d\<lparr>alpha := v\<rparr>)"
| "store (Set_visible v) h this = setNode h this (\<lambda>d. d\<lparr>own_visible := v\<rparr>)"
| "store (Set_pivot v) h this = setNode h this (\<lambda>d. d\<lparr>pivot := v\<rparr>)"
| "store (Set_anchor v) h this = setNode h this (\<lambda>d. d\<lparr>anchor := v\<rparr>)"
| "store (Set_smoothing v) h this = setNode h this (\<lambda>d. d\<lparr>smoothing := v\<rparr>)"
| "store (Set_stretch v) h this = setNode h this (\<lambda>d. d\<lparr>stretch := v\<rparr>)"
| "store (Set_offset v) h this = setNode h this (\<lambda>d. d\<lparr>offset := v\<rparr>)"
| "store (Set_parent v) h this = setNode h this (\<lambda>d. d\<lparr>parent := v\<rparr>)"
| "store w h this = setKind h this (target w) (written w)"

text \<open>The setter that \<^verbatim>\<open>observeDirtyProperties\<close> installs:
  \<^verbatim>\<open>if (object[prop] !== value) ui.shouldReDraw = true; object[proxyKey] = value\<close>.
  \<open>None\<close> when the read of \<^verbatim>\<open>object[prop]\<close> does not return.\<close>

definition setter :: "nat \<Rightarrow> ThreeUI \<times> heap \<Rightarrow> ref \<Rightarrow> assignment \<Rightarrow> (ThreeUI \<times> heap) option" where
  "setter n s this w =
     (case getter n (snd s) this (target w) of
        None \<Rightarrow> None
      | Some current \<Rightarrow>
          Some ((if current \<noteq> written w then (fst s)\<lparr>shouldReDraw := True\<rparr> else fst s),
                store w (snd s) this))"

section \<open>The click handler\<close>

text \<open>\<^verbatim>\<open>addEventListener('click', callback, displayObject)\<close>, as \<^verbatim>\<open>onClick\<close> calls
  it.\<close>

definition addEventListener :: "ThreeUI \<Rightarrow> nat \<Rightarrow> ref \<Rightarrow> ThreeUI" where
  "addEventListener ui cb d = ui\<lparr>click := click ui @ [\<lparr>callback = cb, displayObject = d\<rparr>]\<rparr>"

definition onClick :: "ThreeUI \<Rightarrow> ref \<Rightarrow> nat \<Rightarrow> ThreeUI" where
  "onClick ui this cb = addEventListener ui cb this"

text \<open>An event: a TouchEvent with the page coordinates of its touches and its own
  \<^verbatim>\<open>pageX\<close> and \<^verbatim>\<open>pageY\<close> (\<open>None\<close> when undefined), or a MouseEvent.\<close>

datatype event = TouchEvent "(rat \<times> rat) list" "rat option" "rat option" | MouseEvent rat rat

fun isMouseEvent :: "event \<Rightarrow> bool" where
  "isMouseEvent (MouseEvent px py) = True"
| "isMouseEvent (TouchEvent ts px py) = False"

text \<open>\<^verbatim>\<open>windowToUISpace\<close>. A bounding rectangle of height 0 makes the scale infinite or
  \<^verbatim>\<open>NaN\<close>.\<close>

definition windowToUISpace :: "ThreeUI \<Rightarrow> rat \<Rightarrow> rat \<Rightarrow> error + rat xy" where
  "windowToUISpace ui x0 y0 =
     (case gameCanvasRect ui of
        (rectLeft, rectTop, rectHeight) \<Rightarrow>
          if rectHeight = 0 then Inl NonFinite
          else
            let scale = ui_height ui / rectHeight in
            Inr \<lparr>x = (x0 - rectLeft) * scale, y = (y0 - rectTop) * scale\<rparr>)"

definition isInBoundingBox :: "rat \<Rightarrow> rat \<Rightarrow> rat \<Rightarrow> rat \<Rightarrow> rat \<Rightarrow> rat \<Rightarrow> bool" where
  "isInBoundingBox x0 y0 boundX boundY boundWidth boundHeight =
     (x0 \<ge> boundX \<and> x0 \<le> boundX + boundWidth \<and> y0 \<ge> boundY \<and> y0 \<le> boundY + boundHeight)"

text \<open>The first \<^verbatim>\<open>forEach\<close> of \<^verbatim>\<open>clickHandler\<close>: the queue of the callbacks whose node
  receives events and contains the point.\<close>

fun collect :: "nat \<Rightarrow> ThreeUI \<Rightarrow> heap \<Rightarrow> rat xy \<Rightarrow> listener list \<Rightarrow> nat list \<Rightarrow> nat list res" where
  "collect n ui h coords [] callbackQueue = returnR callbackQueue"
| "collect n ui h coords (l # ls) callbackQueue =
     (case shouldReceiveEvents n h (displayObject l) of
        None \<Rightarrow> None
      | Some receives \<Rightarrow>
          if \<not> receives then collect n ui h coords ls callbackQueue
          else
            bindR (getBounds n ui h (displayObject l)) (\<lambda>b.
              collect n ui h coords ls
                (if isInBoundingBox (x coords) (y coords) (x b) (y b) (width b) (height b)
                 then callbackQueue @ [callback l] else callbackQueue)))"

text \<open>What a callback does, for the second \<^verbatim>\<open>forEach\<close>: called in the state \<open>t\<close>, the
  callback \<open>cb\<close> does not return (\<open>run cb t = None\<close>), or it ends and leaves the state \<open>t'\<close>,
  by a return (\<open>Some (None, t')\<close>) or by the throw of \<open>e\<close> (\<open>Some (Some e, t')\<close>).\<close>

type_synonym callbacks = "nat \<Rightarrow> ThreeUI \<times> heap \<Rightarrow> (error option \<times> ThreeUI \<times> heap) option"

text \<open>The second \<^verbatim>\<open>forEach\<close>, \<^verbatim>\<open>callbackQueue.forEach(function(callback){ callback(); })\<close>:
  the callbacks of the queue are called one after the other, each in the state the one
  before has left. \<open>called\<close> records the calls that have been made, in their order. Nothing
  catches what a callback throws, so the throw ends the loop and the handler, and the
  callbacks behind it in the queue are not called.\<close>

fun fire :: "callbacks \<Rightarrow> nat list \<Rightarrow> nat list \<Rightarrow> ThreeUI \<times> heap \<Rightarrow> (error option \<times> nat list \<times> ThreeUI \<times> heap) option" where
  "fire run [] called t = Some (None, called, t)"
| "fire run (cb # cbs) called t =
     (case run cb t of
        None \<Rightarrow> None
      | Some (Some e, t') \<Rightarrow> Some (Some e, called @ [cb], t')
      | Some (None, t') \<Rightarrow> fire run cbs (called @ [cb]) t')"

text \<open>The coordinates of the event and the flag \<^verbatim>\<open>listeningToTouchEvents\<close> after the first
  part of \<^verbatim>\<open>clickHandler\<close>.\<close>

fun eventCoords :: "ThreeUI \<Rightarrow> event \<Rightarrow> ThreeUI \<times> (rat \<times> rat) option" where
  "eventCoords ui (MouseEvent px py) = (ui, Some (px, py))"
| "eventCoords ui (TouchEvent (t # ts) px py) = (ui\<lparr>listeningToTouchEvents := True\<rparr>, Some t)"
| "eventCoords ui (TouchEvent [] (Some px) (Some py)) =
     (if px \<noteq> 0 \<and> py \<noteq> 0 then (ui\<lparr>listeningToTouchEvents := True\<rparr>, Some (px, py))
      else (ui\<lparr>listeningToTouchEvents := False\<rparr>, None))"
| "eventCoords ui (TouchEvent [] px py) = (ui\<lparr>listeningToTouchEvents := False\<rparr>, None)"

text \<open>\<^verbatim>\<open>clickHandler\<close>. The outcome \<open>Some (thrown, called, t)\<close> says that the handler has
  ended, by a throw if \<open>thrown\<close> is an error and by a return otherwise, that it has called
  the callbacks \<open>called\<close>, in this order, and that it leaves the state \<open>t\<close>; \<open>None\<close> says that
  it has not returned. The first \<^verbatim>\<open>forEach\<close> writes no field, so when it throws the state is
  the one after the first part.\<close>

definition clickHandler :: "nat \<Rightarrow> callbacks \<Rightarrow> ThreeUI \<times> heap \<Rightarrow> event \<Rightarrow> (error option \<times> nat list \<times> ThreeUI \<times> heap) option" where
  "clickHandler n run s event =
     (case eventCoords (fst s) event of
        (ui, coords) \<Rightarrow>
          (case coords of
             None \<Rightarrow> Some (None, [], ui, snd s)
           | Some (px, py) \<Rightarrow>
               if listeningToTouchEvents ui \<and> isMouseEvent event then Some (None, [], ui, snd s)
               else
                 (case windowToUISpace ui px py of
                    Inl e \<Rightarrow> Some (Some e, [], ui, snd s)
                  | Inr coords' \<Rightarrow>
                      (case collect n ui (snd s) coords' (click ui) [] of
                         None \<Rightarrow> None
                       | Some (Inl e) \<Rightarrow> Some (Some e, [], ui, snd s)
                       | Some (Inr callbackQueue) \<Rightarrow> fire run callbackQueue [] (ui, snd s)))))"

section \<open>Notions of the statements\<close>

text \<open>\<open>percentage s p\<close>: the string \<open>s\<close> is a percentage that the source reads as \<open>p\<close>
  percent.\<close>

definition percentage :: "string \<Rightarrow> rat \<Rightarrow> bool" where
  "percentage s p = (case matchPercent s of None \<Rightarrow> False | Some m \<Rightarrow> parseFloat m = Some p)"

text \<open>The \<open>k\<close>-th node up the chain of \<^verbatim>\<open>parent\<close> references, when the chain is that long.\<close>

fun ancestor :: "heap \<Rightarrow> ref \<Rightarrow> nat \<Rightarrow> ref option" where
  "ancestor h this 0 = Some this"
| "ancestor h this (Suc k) = (case parent (nodes h this) of Node p \<Rightarrow> ancestor h p k | _ \<Rightarrow> None)"

text \<open>The chain of \<open>this\<close> contains a cycle: it reaches a node \<open>r\<close> that is its own ancestor
  (its own parent when \<open>m = 0\<close>).\<close>

definition cyclic :: "heap \<Rightarrow> ref \<Rightarrow> bool" where
  "cyclic h this = (\<exists>k r m. ancestor h this k = Some r \<and> ancestor h r (Suc m) = Some r)"

text \<open>The fields of the node \<open>r\<close> that the bounds resolver reads are the same in two
  heaps, and so along the chain of parents for \<open>n\<close> steps.\<close>

definition sameFields :: "heap \<Rightarrow> heap \<Rightarrow> ref \<Rightarrow> bool" where
  "sameFields h h' r =
     (x (nodes h r) = x (nodes h' r) \<and> y (nodes h r) = y (nodes h' r)
      \<and> width (nodes h r) = width (nodes h' r) \<and> height (nodes h r) = height (nodes h' r)
      \<and> parent (nodes h r) = parent (nodes h' r)
      \<and> pivots h (pivot (nodes h r)) = pivots h' (pivot (nodes h' r))
      \<and> anchors h (anchor (nodes h r)) = anchors h' (anchor (nodes h' r))
      \<and> stretches h (stretch (nodes h r)) = stretches h' (stretch (nodes h' r))
      \<and> offsets h (offset (nodes h r)) Left = offsets h' (offset (nodes h' r)) Left
      \<and> offsets h (offset (nodes h r)) Top = offsets h' (offset (nodes h' r)) Top
      \<and> offsets h (offset (nodes h r)) Right = offsets h' (offset (nodes h' r)) Right
      \<and> offsets h (offset (nodes h r)) Bottom = offsets h' (offset (nodes h' r)) Bottom)"

fun chainAgrees :: "nat \<Rightarrow> heap \<Rightarrow> heap \<Rightarrow> ref \<Rightarrow> bool" where
  "chainAgrees 0 h h' this = True"
| "chainAgrees (Suc n) h h' this =
     (sameFields h h' this
      \<and> (case parent (nodes h this) of Node p \<Rightarrow> chainAgrees n h h' p | _ \<Rightarrow> True))"

text \<open>The state in which a factory method leaves a new node \<open>r\<close>, with \<open>pv\<close> for both
  coordinates of the pivot: anchor (left, top), no stretch, all four offsets 0, rotation
  0, alpha 1, \<^verbatim>\<open>visible\<close> reads true, no parent.\<close>

definition hasDefaults :: "heap \<Rightarrow> ref \<Rightarrow> rat \<Rightarrow> bool" where
  "hasDefaults h r pv =
     (pivots h (pivot (nodes h r)) = \<lparr>x = pv, y = pv\<rparr>
      \<and> anchors h (anchor (nodes h r)) = \<lparr>x = anchors_left, y = anchors_top\<rparr>
      \<and> stretches h (stretch (nodes h r)) = \<lparr>x = False, y = False\<rparr>
      \<and> offsets h (offset (nodes h r)) Left = Num 0
      \<and> offsets h (offset (nodes h r)) Top = Num 0
      \<and> offsets h (offset (nodes h r)) Right = Num 0
      \<and> offsets h (offset (nodes h r)) Bottom = Num 0
      \<and> rotation (nodes h r) = 0
      \<and> alpha (nodes h r) = 1
      \<and> proxied_visible (Suc 0) h r = Some True
      \<and> parent (nodes h r) = Undefined)"


text \<open>A node can be rendered: its \<^verbatim>\<open>visible\<close> reads false, or it reads true and the bounds
  of the node resolve.\<close>

definition renderable :: "nat \<Rightarrow> ThreeUI \<Rightarrow> heap \<Rightarrow> ref \<Rightarrow> bool" where
  "renderable n ui h r =
     (case proxied_visible n h r of
        None \<Rightarrow> False
      | Some v \<Rightarrow> if v then (case getBounds n ui h r of Some (Inr b) \<Rightarrow> True | _ \<Rightarrow> False) else True)"


text \<open>A listener is hit: the \<^verbatim>\<open>visible\<close> of its node reads true and the bounds of the node
  contain the point.\<close>

definition hit :: "nat \<Rightarrow> ThreeUI \<Rightarrow> heap \<Rightarrow> rat xy \<Rightarrow> listener \<Rightarrow> bool" where
  "hit n ui h coords l =
     (proxied_visible n h (displayObject l) = Some True
      \<and> (case getBounds n ui h (displayObject l) of
            Some (Inr b) \<Rightarrow> isInBoundingBox (x coords) (y coords) (x b) (y b) (width b) (height b)
          | _ \<Rightarrow> False))"

text \<open>Callbacks that return: \<open>f cb t\<close> is the state that the callback \<open>cb\<close>, called in
  the state \<open>t\<close>, leaves.\<close>

definition returning :: "(nat \<Rightarrow> ThreeUI \<times> heap \<Rightarrow> ThreeUI \<times> heap) \<Rightarrow> callbacks" where
  "returning f cb t = Some (None, f cb t)"

text \<open>\<open>chain run cbs ts\<close>: the states \<open>ts\<close> are those between the calls of \<open>cbs\<close>, one after
  the other. The first callback of \<open>cbs\<close> is called in the first state of \<open>ts\<close>; each
  callback returns and leaves the next state of \<open>ts\<close>, in which the next callback is
  called; the last state of \<open>ts\<close> is the one that the last callback leaves.\<close>

fun chain :: "callbacks \<Rightarrow> nat list \<Rightarrow> (ThreeUI \<times> heap) list \<Rightarrow> bool" where
  "chain run [] ts = (length ts = 1)"
| "chain run (cb # cbs) (t # t' # ts) = (run cb t = Some (None, t') \<and> chain run cbs (t' # ts))"
| "chain run (cb # cbs) ts = False"

text \<open>Rounding to the nearest integer, ties to even, and the double nearest to \<open>q\<close> for
  \<open>q\<close> in a binade whose doubles have \<open>fracBits\<close> bits after the binary point (52 for
  \<open>1 \<le> q < 2\<close>, 42 for \<open>1024 \<le> q < 2048\<close>). Used for one check of the number model
  only.\<close>

definition roundHalfEven :: "rat \<Rightarrow> int" where
  "roundHalfEven q =
     (let f = \<lfloor>q\<rfloor>; r = q - of_int f in
      if r < 1 / 2 then f else if r > 1 / 2 then f + 1 else if even f then f else f + 1)"

definition roundDouble :: "nat \<Rightarrow> rat \<Rightarrow> rat" where
  "roundDouble fracBits q = of_int (roundHalfEven (q * 2 ^ fracBits)) / 2 ^ fracBits"

section \<open>Scenarios\<close>

text \<open>A heap with no object allocated yet; what an unallocated reference holds is never
  read by an allocated node.\<close>

definition emptyHeap :: heap where
  "emptyHeap =
     \<lparr>nodes = (\<lambda>r. \<lparr>x = None, y = None, width = None, height = None, rotation = 0, alpha = 0,
                      own_visible = False, pivot = 0, anchor = 0, smoothing = False, stretch = 0,
                      offset = 0, parent = Undefined, props = (\<lambda>k. Undefined)\<rparr>),
      pivots = (\<lambda>r. \<lparr>x = 0, y = 0\<rparr>),
      anchors = (\<lambda>r. \<lparr>x = 0, y = 0\<rparr>),
      stretches = (\<lambda>r. \<lparr>x = False, y = False\<rparr>),
      offsets = (\<lambda>r key. Undefined),
      fresh = 0\<rparr>"

text \<open>The UI of the scenarios: logical height 720 over a host canvas of 1280 by 720 whose
  bounding rectangle is at the origin and 720 high, so that window coordinates are UI
  coordinates.\<close>

definition ui720 :: ThreeUI where
  "ui720 =
     \<lparr>displayObjects = [], click = [], clearRect = None, gameCanvas = (1280, 720),
      gameCanvasRect = (0, 0, 720), ui_height = 720, ui_width = 1280, renderOnQuad = False,
      shouldReDraw = True, needsUpdate = False, listeningToTouchEvents = False,
      context2d = []\<rparr>"

text \<open>Writes that go around the setters: the objects \<^verbatim>\<open>stretch\<close>, \<^verbatim>\<open>offset\<close> and
  \<^verbatim>\<open>pivot\<close> of a node are changed in place (\<^verbatim>\<open>node.stretch.x = true\<close>).\<close>

definition setStretch :: "heap \<Rightarrow> ref \<Rightarrow> bool \<Rightarrow> bool \<Rightarrow> heap" where
  "setStretch h this sx sy = h\<lparr>stretches := (stretches h)(stretch (nodes h this) := \<lparr>x = sx, y = sy\<rparr>)\<rparr>"

definition setOffset :: "heap \<Rightarrow> ref \<Rightarrow> edge \<Rightarrow> jsvalue \<Rightarrow> heap" where
  "setOffset h this key v =
     h\<lparr>offsets := (offsets h)(offset (nodes h this) := (offsets h (offset (nodes h this)))(key := v))\<rparr>"

definition setPivot :: "heap \<Rightarrow> ref \<Rightarrow> rat \<Rightarrow> rat \<Rightarrow> heap" where
  "setPivot h this px py = h\<lparr>pivots := (pivots h)(pivot (nodes h this) := \<lparr>x = px, y = py\<rparr>)\<rparr>"

text \<open>For the scenarios: an assignment \<^verbatim>\<open>node.prop = value\<close>, which runs the setter. The
  chains of parents of the scenarios have at most two nodes, so that the read in the setter
  returns within two frames.\<close>

definition assign :: "ThreeUI \<times> heap \<Rightarrow> ref \<Rightarrow> assignment \<Rightarrow> ThreeUI \<times> heap" where
  "assign s this w = (case setter (Suc (Suc 0)) s this w of Some s' \<Rightarrow> s' | None \<Rightarrow> s)"


text \<open>A rectangle whose offsets are 50 on the left, 50 percent on the top, 12.5 percent on
  the right and 0 on the bottom.\<close>

definition offsetScene :: heap where
  "offsetScene =
     (let (r, ui, h) = createRectangle (ui720, emptyHeap) ''#ffffff''
                         (Number 0) (Number 0) (Number 1280) (Number 50)
      in setOffset (setOffset (setOffset h r Left (Num 50)) r Top (Str ''50%'')) r Right
           (Str ''12.5%''))"

text \<open>The stretched rectangle of the README: stretched along x, offset 50 on the left and
  50 percent on the right.\<close>

definition stretchScene :: heap where
  "stretchScene =
     (let (r, ui, h) = createRectangle (ui720, emptyHeap) ''#ffffff''
                         (Number 0) (Number 0) (Number 1280) (Number 50)
      in setOffset (setOffset (setStretch h r True False) r Left (Num 50)) r Right (Str ''50%''))"

text \<open>Two rectangles, \<^verbatim>\<open>a.parent = b; b.parent = a\<close>.\<close>

definition cycleScene :: "ThreeUI \<times> heap" where
  "cycleScene =
     (let (a, ui1, h1) = createRectangle (ui720, emptyHeap) ''#ffffff''
                           (Number 0) (Number 0) (Number 100) (Number 100);
          (b, ui2, h2) = createRectangle (ui1, h1) ''#000000''
                           (Number 0) (Number 0) (Number 100) (Number 100)
      in assign (assign (ui2, h2) a (Set_parent (Node b))) b (Set_parent (Node a)))"

text \<open>A rectangle \<open>a\<close> at (100, 100) of size 200 by 100 and a rectangle \<open>b\<close> at (10, 10) of
  size 50 by 50 with \<^verbatim>\<open>b.parent = a\<close>; then the same after \<^verbatim>\<open>b.alpha = 0.5\<close>.\<close>

definition nestedScene :: "ThreeUI \<times> heap" where
  "nestedScene =
     (let (a, ui1, h1) = createRectangle (ui720, emptyHeap) ''#ffffff''
                           (Number 100) (Number 100) (Number 200) (Number 100);
          (b, ui2, h2) = createRectangle (ui1, h1) ''#000000''
                           (Number 10) (Number 10) (Number 50) (Number 50)
      in assign (ui2, h2) b (Set_parent (Node a)))"

definition nestedSceneFaded :: "ThreeUI \<times> heap" where
  "nestedSceneFaded = assign nestedScene 5 (Set_alpha (1 / 2))"






text \<open>The scenario of the specification for the click handler: box \<open>a\<close> = (0, 0, 100, 100)
  registered first with callback 0, box \<open>b\<close> = (50, 50, 100, 100) with callback 1 (both
  with pivot (0, 0), so that these are their bounds).\<close>

definition overlapScene :: "ThreeUI \<times> heap" where
  "overlapScene =
     (let (a, ui1, h1) = createRectangle (ui720, emptyHeap) ''#ffffff''
                           (Number 0) (Number 0) (Number 100) (Number 100);
          (b, ui2, h2) = createRectangle (ui1, h1) ''#000000''
                           (Number 50) (Number 50) (Number 100) (Number 100)
      in (onClick (onClick ui2 a 0) b 1, setPivot (setPivot h2 a 0 0) b 0 0))"

text \<open>Callback 0, that of \<open>a\<close>, is \<^verbatim>\<open>function () { b.visible = false; }\<close>. Callback 1, that
  of \<open>b\<close>, is \<^verbatim>\<open>function () { a.x = b.visible ? 1 : 2; }\<close>: it leaves in \<^verbatim>\<open>a.x\<close> whether
  \<open>b\<close> read visible when it was called, so that the state after the click tells whether it
  was called, and whether before or after callback 0.\<close>

definition overlapCallbacks :: "nat \<Rightarrow> ThreeUI \<times> heap \<Rightarrow> ThreeUI \<times> heap" where
  "overlapCallbacks cb t =
     (if cb = 0 then assign t 5 (Set_visible False)
      else if cb = 1 then
        assign t 0 (Set_x (Some (if proxied_visible (Suc (Suc 0)) (snd t) 5 = Some True then 1 else 2)))
      else t)"

text \<open>The same callbacks, but callback 0 throws after its assignment:
  \<^verbatim>\<open>function () { b.visible = false; undefined.f(); }\<close>.\<close>

definition throwingCallbacks :: callbacks where
  "throwingCallbacks cb t =
     (if cb = 0 then Some (Some TypeError, assign t 5 (Set_visible False))
      else returning overlapCallbacks cb t)"



section \<open>Results and binds\<close>

lemma bindR_None [simp]: "bindR None f = None"
  and bindR_Inl [simp]: "bindR (Some (Inl e)) f = Some (Inl e)"
  and bindR_Inr [simp]: "bindR (Some (Inr a)) f = f a"
  by (simp_all add: bindR_def)

lemma bindR_returnR [simp]: "bindR (returnR a) f = f a"
  by (simp add: returnR_def)

lemma bindR_throwR [simp]: "bindR (throwR e) f = throwR e"
  by (simp add: throwR_def)

lemma returnR_eq [simp]:
  "returnR a = Some (Inr b) \<longleftrightarrow> a = b" "returnR a \<noteq> None" "returnR a \<noteq> Some (Inl e)"
  by (simp_all add: returnR_def)

lemma throwR_eq [simp]:
  "throwR e \<noteq> Some (Inr b)" "throwR e \<noteq> None" "throwR e = Some (Inl e') \<longleftrightarrow> e = e'"
  by (simp_all add: throwR_def)

lemma bindR_eq_Inr:
  "bindR m f = Some (Inr b) \<longleftrightarrow> (\<exists>a. m = Some (Inr a) \<and> f a = Some (Inr b))"
  by (auto simp: bindR_def split: option.splits sum.splits)

lemma bindR_eq_None:
  "bindR m f = None \<longleftrightarrow> m = None \<or> (\<exists>a. m = Some (Inr a) \<and> f a = None)"
  by (auto simp: bindR_def split: option.splits sum.splits)

section \<open>Offsets\<close>

text \<open>The regular expression accepts exactly the strings \<open>m @ ''%''\<close> with \<open>m\<close> a
  non-empty string of digits and dots.\<close>

lemma matchPercent_iff:
  "matchPercent s = Some m \<longleftrightarrow>
     s = m @ ''%'' \<and> m \<noteq> [] \<and> list_all (\<lambda>c. isDigit c \<or> c = CHR ''.'') m"
proof (cases "s = []")
  case True
  then show ?thesis by (simp add: matchPercent_def)
next
  case False
  then have "s = butlast s @ [last s]" by simp
  then show ?thesis
    by (auto simp: matchPercent_def)
qed

lemma offsetValue_Num [simp]: "offsetValue gpb (Num v) = returnR v"
  by (simp add: offsetValue_def)

lemma offsetValue_percentage:
  "percentage s p \<Longrightarrow> offsetValue (Some (Inr pb)) (Str s) = returnR (p / 100 * width pb)"
  by (auto simp: offsetValue_def percentage_def split: option.splits)

text \<open>What \<^verbatim>\<open>getOffsetInCanvas\<close> returns is what the loop computes key by key.\<close>

lemma getOffsetInCanvas_Inr_iff:
  "getOffsetInCanvas h this gpb = Some (Inr offs) \<longleftrightarrow>
     (\<forall>key. offsetValue gpb (offsets h (offset (nodes h this)) key) = Some (Inr (offs key)))"
  (is "?L \<longleftrightarrow> ?R")
proof
  assume ?L
  then obtain l t r b where
    v: "offsetValue gpb (offsets h (offset (nodes h this)) Left) = Some (Inr l)"
       "offsetValue gpb (offsets h (offset (nodes h this)) Top) = Some (Inr t)"
       "offsetValue gpb (offsets h (offset (nodes h this)) Right) = Some (Inr r)"
       "offsetValue gpb (offsets h (offset (nodes h this)) Bottom) = Some (Inr b)" and
    o: "offs = (\<lambda>key. 0::rat)(Left := l, Top := t, Right := r, Bottom := b)"
    by (auto simp: getOffsetInCanvas_def bindR_eq_Inr)
  show ?R
  proof
    fix key
    show "offsetValue gpb (offsets h (offset (nodes h this)) key) = Some (Inr (offs key))"
      using v by (cases key) (simp_all add: o)
  qed
next
  assume r: ?R
  have "(\<lambda>key. 0::rat)(Left := offs Left, Top := offs Top, Right := offs Right, Bottom := offs Bottom) = offs"
  proof
    fix key
    show "((\<lambda>key. 0::rat)(Left := offs Left, Top := offs Top, Right := offs Right,
             Bottom := offs Bottom)) key = offs key"
      by (cases key) simp_all
  qed
  then show ?L
    by (simp add: getOffsetInCanvas_def r)
qed

text \<open>
  \<^bold>\<open>Claim C4.\<close> For every node and each of the four offset edges: a numeric offset passes
  through unchanged, and a percentage string \<open>p%\<close> resolves to \<open>p / 100\<close> times the
  \<^emph>\<open>width\<close> of the parent's resolved bounds, for \<open>Top\<close> and \<open>Bottom\<close> as for \<open>Left\<close> and
  \<open>Right\<close>. When the parent's bounds resolve to \<open>pb\<close> and every edge holds a number or a
  percentage, \<^verbatim>\<open>getOffsetInCanvas\<close> returns, and its result obeys both rules at every
  key.
\<close>

theorem getOffsetInCanvas_edges:
  assumes "gpb = Some (Inr pb)"
    and "\<forall>key. (\<exists>v. offsets h (offset (nodes h this)) key = Num v)
             \<or> (\<exists>s p. offsets h (offset (nodes h this)) key = Str s \<and> percentage s p)"
  shows "\<exists>offs. getOffsetInCanvas h this gpb = Some (Inr offs)
           \<and> (\<forall>key v. offsets h (offset (nodes h this)) key = Num v \<longrightarrow> offs key = v)
           \<and> (\<forall>key s p. offsets h (offset (nodes h this)) key = Str s \<longrightarrow> percentage s p
                  \<longrightarrow> offs key = p / 100 * width pb)"
proof -
  have "\<forall>key. \<exists>r. offsetValue gpb (offsets h (offset (nodes h this)) key) = Some (Inr r)"
  proof
    fix key
    from assms(2) consider v where "offsets h (offset (nodes h this)) key = Num v"
      | s p where "offsets h (offset (nodes h this)) key = Str s" "percentage s p"
      by blast
    then show "\<exists>r. offsetValue gpb (offsets h (offset (nodes h this)) key) = Some (Inr r)"
    proof cases
      case 1
      then show ?thesis by simp
    next
      case 2
      then have "offsetValue gpb (offsets h (offset (nodes h this)) key)
                   = Some (Inr (p / 100 * width pb))"
        by (simp add: assms(1) offsetValue_percentage)
      then show ?thesis ..
    qed
  qed
  then obtain offs where
    offs: "\<forall>key. offsetValue gpb (offsets h (offset (nodes h this)) key) = Some (Inr (offs key))"
    by metis
  then have ret: "getOffsetInCanvas h this gpb = Some (Inr offs)"
    by (simp add: getOffsetInCanvas_Inr_iff)
  have num: "offs key = v" if "offsets h (offset (nodes h this)) key = Num v" for key v
    using offs [rule_format, of key] that by simp
  have perc: "offs key = p / 100 * width pb"
    if "offsets h (offset (nodes h this)) key = Str s" "percentage s p" for key s p
    using offs [rule_format, of key] that by (simp add: assms(1) offsetValue_percentage)
  from ret num perc show ?thesis by blast
qed

lemma percentage_50: "percentage ''50%'' 50"
  by code_simp

lemma percentage_12_5: "percentage ''12.5%'' (25 / 2)"
  by code_simp

lemma offsetScene_offsets:
  "offsets offsetScene (offset (nodes offsetScene 0)) =
     (\<lambda>key. Num 0)(Left := Num 50, Top := Str ''50%'', Right := Str ''12.5%'')"
  by (simp add: offsetScene_def createRectangle_def register_def Rectangle_new_def
      DisplayObject_new_def emptyHeap_def setOffset_def Let_def)

theorem getOffsetInCanvas_edges_witness:
  "\<exists>offs. getOffsetInCanvas offsetScene 0 (Some (Inr \<lparr>x = 0, y = 0, width = 1280, height = 720\<rparr>))
            = Some (Inr offs)
         \<and> offs Left = 50 \<and> offs Top = 640 \<and> offs Right = 160 \<and> offs Bottom = 0"
proof -
  let ?pb = "\<lparr>x = 0, y = 0, width = 1280, height = 720\<rparr> :: bounds"
  have pre: "\<forall>key. (\<exists>v. offsets offsetScene (offset (nodes offsetScene 0)) key = Num v)
             \<or> (\<exists>s p. offsets offsetScene (offset (nodes offsetScene 0)) key = Str s \<and> percentage s p)"
  proof
    fix key
    show "(\<exists>v. offsets offsetScene (offset (nodes offsetScene 0)) key = Num v)
             \<or> (\<exists>s p. offsets offsetScene (offset (nodes offsetScene 0)) key = Str s \<and> percentage s p)"
      using percentage_50 percentage_12_5
      by (cases key) (auto simp: offsetScene_offsets)
  qed
  from getOffsetInCanvas_edges [OF refl pre] obtain offs where
    ret: "getOffsetInCanvas offsetScene 0 (Some (Inr ?pb)) = Some (Inr offs)" and
    num: "\<And>key v. offsets offsetScene (offset (nodes offsetScene 0)) key = Num v \<Longrightarrow> offs key = v" and
    perc: "\<And>key s p. offsets offsetScene (offset (nodes offsetScene 0)) key = Str s \<Longrightarrow> percentage s p
             \<Longrightarrow> offs key = p / 100 * width ?pb"
    by blast
  have "offs Left = 50" "offs Bottom = 0"
    by (rule num, simp add: offsetScene_offsets)+
  moreover have "offs Top = 640"
    using perc [of Top "''50%''" 50] percentage_50 by (simp add: offsetScene_offsets)
  moreover have "offs Right = 160"
    using perc [of Right "''12.5%''" "25 / 2"] percentage_12_5 by (simp add: offsetScene_offsets)
  ultimately show ?thesis using ret by blast
qed

section \<open>Stretched axes\<close>

text \<open>
  \<^bold>\<open>Claim C5.\<close> For every node with a stretched axis: the resolved size on that axis is the
  parent's resolved size on that axis minus the resolved offset of the start edge minus
  the resolved offset of the end edge, and the position before the pivot is subtracted is
  the parent's origin plus the resolved offset of the start edge; the node's raw position
  and size on that axis and its anchor do not enter (the raw size enters the pivot term
  only). Here \<open>pb\<close> is what \<^verbatim>\<open>getParentBounds\<close> returns and \<open>offs\<close> what
  \<^verbatim>\<open>getOffsetInCanvas\<close> returns. The witness is the case of the claim: an offset of
  50 percent on the right of a stretched x axis, parent width 1280, left offset 50.
\<close>

theorem stretched_axis:
  assumes "getParentBounds ui h this (\<lambda>p. getBounds n ui h p) = Some (Inr pb)"
    and "getOffsetInCanvas h this (Some (Inr pb)) = Some (Inr offs)"
    and "x (stretches h (stretch (nodes h this))) \<or> y (stretches h (stretch (nodes h this)))"
  shows "\<exists>b. getBounds (Suc n) ui h this = Some (Inr b)
           \<and> (x (stretches h (stretch (nodes h this))) \<longrightarrow>
                width b = width pb - offs Left - offs Right
                \<and> x b = (x pb + offs Left)
                          - toNumber (width (nodes h this)) * x (pivots h (pivot (nodes h this))))
           \<and> (y (stretches h (stretch (nodes h this))) \<longrightarrow>
                height b = height pb - offs Top - offs Bottom
                \<and> y b = (y pb + offs Top)
                          - toNumber (height (nodes h this)) * y (pivots h (pivot (nodes h this))))"
  using assms
  by (auto simp: determinePositionInCanvas_def determineDimensionsInCanvas_def
      adjustPositionForAnchor_def adjustPositionForPivot_def Let_def)

lemma stretchScene_node:
  "stretches stretchScene (stretch (nodes stretchScene 0)) = \<lparr>x = True, y = False\<rparr>"
  "offsets stretchScene (offset (nodes stretchScene 0)) = (\<lambda>key. Num 0)(Left := Num 50, Right := Str ''50%'')"
  "parent (nodes stretchScene 0) = Undefined"
  "width (nodes stretchScene 0) = Some 1280"
  "pivots stretchScene (pivot (nodes stretchScene 0)) = \<lparr>x = 1 / 2, y = 1 / 2\<rparr>"
  by (simp_all add: stretchScene_def createRectangle_def register_def Rectangle_new_def
      DisplayObject_new_def emptyHeap_def setOffset_def setStretch_def Let_def)

theorem stretched_axis_witness:
  "\<exists>b. getBounds (Suc 0) ui720 stretchScene 0 = Some (Inr b)
      \<and> width b = 1280 - 50 - (1 / 2) * 1280 \<and> x b = (0 + 50) - 1280 * (1 / 2)"
proof -
  let ?pb = "\<lparr>x = 0, y = 0, width = 1280, height = 720\<rparr> :: bounds"
  let ?offs = "(\<lambda>key. 0 :: rat)(Left := 50, Right := 640)"
  have gpb: "getParentBounds ui720 stretchScene 0 (\<lambda>p. getBounds 0 ui720 stretchScene p) = Some (Inr ?pb)"
    by (simp add: getParentBounds_def stretchScene_node ui720_def returnR_def)
  have "\<forall>key. offsetValue (Some (Inr ?pb)) (offsets stretchScene (offset (nodes stretchScene 0)) key)
           = Some (Inr (?offs key))"
  proof
    fix key
    show "offsetValue (Some (Inr ?pb)) (offsets stretchScene (offset (nodes stretchScene 0)) key)
           = Some (Inr (?offs key))"
      using offsetValue_percentage [OF percentage_50, of ?pb]
      by (cases key) (simp_all add: stretchScene_node)
  qed
  then have offs: "getOffsetInCanvas stretchScene 0 (Some (Inr ?pb)) = Some (Inr ?offs)"
    by (rule iffD2 [OF getOffsetInCanvas_Inr_iff])
  have st: "x (stretches stretchScene (stretch (nodes stretchScene 0)))
            \<or> y (stretches stretchScene (stretch (nodes stretchScene 0)))"
    by (simp add: stretchScene_node)
  from stretched_axis [OF gpb offs st] show ?thesis
    by (simp add: stretchScene_node toNumber_def)
qed

section \<open>Cycles of parents\<close>

lemma ancestor_add:
  "ancestor h this (k + j) = (case ancestor h this k of None \<Rightarrow> None | Some r \<Rightarrow> ancestor h r j)"
  by (induction k arbitrary: this) (auto split: jsvalue.splits)

lemma ancestor_prefix: "ancestor h this (k + j) \<noteq> None \<Longrightarrow> ancestor h this k \<noteq> None"
  by (simp add: ancestor_add split: option.splits)

lemma ancestor_loop: "ancestor h r (Suc m) = Some r \<Longrightarrow> ancestor h r (j * Suc m) = Some r"
proof (induction j)
  case 0
  then show ?case by simp
next
  case (Suc j)
  have "Suc j * Suc m = j * Suc m + Suc m" by simp
  then have "ancestor h r (Suc j * Suc m) = ancestor h r (j * Suc m + Suc m)"
    by (simp only:)
  also have "\<dots> = ancestor h r (Suc m)"
    using Suc by (simp only: ancestor_add option.case)
  finally show ?case using Suc.prems by simp
qed

text \<open>A chain with a cycle has an ancestor at every distance.\<close>

lemma cyclic_endless:
  assumes "cyclic h this"
  shows "ancestor h this i \<noteq> None"
proof -
  from assms obtain k r m where k: "ancestor h this k = Some r" and m: "ancestor h r (Suc m) = Some r"
    by (auto simp: cyclic_def)
  have r: "ancestor h r j \<noteq> None" for j
  proof -
    have "ancestor h r (j + j * m) \<noteq> None"
      using ancestor_loop [OF m, of j] by simp
    then show ?thesis by (rule ancestor_prefix)
  qed
  have "ancestor h this (k + i) \<noteq> None"
    using r [of i] by (simp add: ancestor_add k)
  then have "ancestor h this (i + k) \<noteq> None" by (simp add: add.commute)
  then show ?thesis by (rule ancestor_prefix)
qed

lemma determinePositionInCanvas_None [simp]: "determinePositionInCanvas h this None = None"
  by (simp add: determinePositionInCanvas_def adjustPositionForAnchor_def Let_def)

lemma getBounds_endless:
  "(\<forall>k\<le>n. ancestor h this k \<noteq> None) \<Longrightarrow> getBounds n ui h this = None"
proof (induction n arbitrary: this)
  case 0
  then show ?case by simp
next
  case (Suc n)
  have "Suc 0 \<le> Suc n" by simp
  with Suc.prems have "ancestor h this (Suc 0) \<noteq> None" by blast
  then obtain p where p: "parent (nodes h this) = Node p"
    by (auto split: jsvalue.splits)
  have "\<forall>k\<le>n. ancestor h p k \<noteq> None"
  proof (intro allI impI)
    fix k assume "k \<le> n"
    then have "Suc k \<le> Suc n" by simp
    with Suc.prems have "ancestor h this (Suc k) \<noteq> None" by blast
    then show "ancestor h p k \<noteq> None" by (simp add: p)
  qed
  then have "getBounds n ui h p = None" by (rule Suc.IH)
  then show ?case by (simp add: getParentBounds_def p)
qed

lemma createRectangle_unfold:
  "createRectangle s color ax ay aw ah =
     (fresh (snd s), (fst s)\<lparr>displayObjects := displayObjects (fst s) @ [fresh (snd s)]\<rparr>,
      snd (Rectangle_new (snd s) color ax ay aw ah))"
  by (simp add: createRectangle_def register_def Rectangle_new_def DisplayObject_new_def Let_def)

lemma assign_plain:
  "target w \<noteq> P_visible \<Longrightarrow>
     assign s this w =
       ((if backing (snd s) this (target w) \<noteq> written w then (fst s)\<lparr>shouldReDraw := True\<rparr> else fst s),
        store w (snd s) this)"
  by (simp add: assign_def setter_def getter_def)

lemma cycleScene_parents:
  "parent (nodes (snd cycleScene) 0) = Node 5" "parent (nodes (snd cycleScene) 5) = Node 0"
  by (simp_all add: cycleScene_def createRectangle_unfold assign_plain Rectangle_new_def
      DisplayObject_new_def emptyHeap_def setNode_def Let_def)

lemma cycleScene_cyclic: "cyclic (snd cycleScene) 0"
proof -
  have "ancestor (snd cycleScene) 0 0 = Some 0" by simp
  moreover have "ancestor (snd cycleScene) 0 (Suc (Suc 0)) = Some 0"
    by (simp add: cycleScene_parents)
  ultimately show ?thesis unfolding cyclic_def by blast
qed

text \<open>
  \<^bold>\<open>Claim C1\<close>, as the source has it. \<^verbatim>\<open>getParentBounds\<close> calls \<^verbatim>\<open>getBounds\<close> of the parent
  with no guard, and \<^verbatim>\<open>getBounds\<close> always calls \<^verbatim>\<open>getParentBounds\<close>. So for a node whose
  chain of parents contains a cycle (a node that is its own parent included) the call
  has not returned after \<open>n\<close> nested frames, whatever \<open>n\<close> is: it neither returns bounds
  nor throws, and in particular it never raises \<open>CyclicParentError\<close>. In an engine the
  recursion ends when the call stack is exhausted.
\<close>

theorem getBounds_cyclic: "cyclic h this \<Longrightarrow> getBounds n ui h this = None"
  by (simp add: getBounds_endless cyclic_endless)

theorem getBounds_cyclic_witness:
  "cyclic (snd cycleScene) 5 \<and> getBounds 1000 (fst cycleScene) (snd cycleScene) 5 = None"
proof -
  have "ancestor (snd cycleScene) 5 0 = Some 5" by simp
  moreover have "ancestor (snd cycleScene) 5 (Suc (Suc 0)) = Some 5"
    by (simp add: cycleScene_parents)
  ultimately have c: "cyclic (snd cycleScene) 5" unfolding cyclic_def by blast
  from c getBounds_cyclic [OF c] show ?thesis by blast
qed

text \<open>The scenario of the specification, \<^verbatim>\<open>nodeA.boundsParent = nodeB;
  nodeB.boundsParent = nodeA\<close>: \<^verbatim>\<open>getBounds\<close> of \<open>nodeA\<close> has not returned after \<open>n\<close>
  nested frames, for every \<open>n\<close>, and raises no \<open>CyclicParentError\<close>.\<close>

theorem getBounds_cycle_counterexample:
  "cyclic (snd cycleScene) 0
   \<and> (\<forall>n. getBounds n (fst cycleScene) (snd cycleScene) 0 = None
          \<and> getBounds n (fst cycleScene) (snd cycleScene) 0 \<noteq> Some (Inl CyclicParentError))"
proof -
  have "getBounds n (fst cycleScene) (snd cycleScene) 0 = None" for n
    using cycleScene_cyclic by (simp add: getBounds_endless cyclic_endless)
  then show ?thesis using cycleScene_cyclic by simp
qed

section \<open>Determinism of the bounds resolver\<close>

lemma offsetValue_None: "offsetValue gpb v = None \<Longrightarrow> gpb = None"
  by (cases gpb; cases v)
    (auto simp: offsetValue_def bindR_def returnR_def throwR_def split: option.splits sum.splits)

lemma offsetLoop_None: "offsetLoop gpb offs keys acc = None \<Longrightarrow> gpb = None"
  by (induction keys arbitrary: acc) (auto simp: bindR_eq_None dest: offsetValue_None)

lemma getOffsetInCanvas_None: "getOffsetInCanvas h this gpb = None \<Longrightarrow> gpb = None"
  unfolding getOffsetInCanvas_def by (rule offsetLoop_None)

lemma adjustPositionForAnchor_None:
  "adjustPositionForAnchor h this gpb x0 y0 = None \<Longrightarrow> gpb = None"
  by (auto simp: adjustPositionForAnchor_def Let_def bindR_eq_None)

lemma determinePositionInCanvas_eq_None:
  "determinePositionInCanvas h this gpb = None \<Longrightarrow> gpb = None"
  by (auto simp: determinePositionInCanvas_def Let_def bindR_eq_None
      dest: getOffsetInCanvas_None adjustPositionForAnchor_None split: if_splits)

lemma determineDimensionsInCanvas_eq_None:
  "determineDimensionsInCanvas h this gpb = None \<Longrightarrow> gpb = None"
  by (auto simp: determineDimensionsInCanvas_def Let_def bindR_eq_None
      dest: getOffsetInCanvas_None split: if_splits)

text \<open>A call that has returned within \<open>n\<close> frames returns the same with more.\<close>

lemma getBounds_mono:
  "getBounds n ui h this = Some r \<Longrightarrow> getBounds (n + k) ui h this = Some r"
proof (induction n arbitrary: this r)
  case 0
  then show ?case by simp
next
  case (Suc n)
  show ?case
  proof (cases "parent (nodes h this)")
    case (Node p)
    show ?thesis
    proof (cases "getBounds n ui h p")
      case None
      with Suc.prems Node show ?thesis by (simp add: getParentBounds_def)
    next
      case (Some v)
      then have "getBounds (n + k) ui h p = Some v" by (rule Suc.IH)
      with Suc.prems Node Some show ?thesis by (simp add: getParentBounds_def)
    qed
  qed (use Suc.prems in \<open>simp_all add: getParentBounds_def\<close>)
qed

lemma getBounds_le:
  "getBounds n ui h this = Some r \<Longrightarrow> n \<le> m \<Longrightarrow> getBounds m ui h this = Some r"
  using getBounds_mono [of n ui h this r "m - n"] by simp

text \<open>When the chain of parents ends within \<open>n\<close> steps, the call returns within \<open>n\<close>
  frames (bounds or an error).\<close>

lemma getBounds_returns:
  "ancestor h this n = None \<Longrightarrow> getBounds n ui h this \<noteq> None"
proof (induction n arbitrary: this)
  case 0
  then show ?case by simp
next
  case (Suc n)
  have gpb: "getParentBounds ui h this (\<lambda>p. getBounds n ui h p) \<noteq> None"
  proof (cases "parent (nodes h this)")
    case (Node p)
    with Suc.prems have "ancestor h p n = None" by simp
    then have "getBounds n ui h p \<noteq> None" by (rule Suc.IH)
    then show ?thesis by (simp add: getParentBounds_def Node)
  qed (simp_all add: getParentBounds_def)
  show ?case
  proof
    assume "getBounds (Suc n) ui h this = None"
    then have "getParentBounds ui h this (\<lambda>p. getBounds n ui h p) = None"
      by (auto simp: Let_def bindR_eq_None
          dest: determinePositionInCanvas_eq_None determineDimensionsInCanvas_eq_None)
    with gpb show False by contradiction
  qed
qed

text \<open>The result depends on the canvas size and on the fields of the node and of its
  ancestors only.\<close>

lemma offsetLoop_cong:
  "(\<And>key. key \<in> set keys \<Longrightarrow> offs key = offs' key) \<Longrightarrow>
     offsetLoop gpb offs keys acc = offsetLoop gpb offs' keys acc"
  by (induction keys arbitrary: acc) simp_all

lemma getOffsetInCanvas_sameFields:
  "sameFields h h' this \<Longrightarrow> getOffsetInCanvas h this gpb = getOffsetInCanvas h' this gpb"
  unfolding getOffsetInCanvas_def
  by (rule offsetLoop_cong) (auto simp: sameFields_def)

lemma sameFields_D:
  assumes "sameFields h h' r"
  shows "x (nodes h' r) = x (nodes h r)" "y (nodes h' r) = y (nodes h r)"
    "width (nodes h' r) = width (nodes h r)" "height (nodes h' r) = height (nodes h r)"
    "parent (nodes h' r) = parent (nodes h r)"
    "pivots h' (pivot (nodes h' r)) = pivots h (pivot (nodes h r))"
    "anchors h' (anchor (nodes h' r)) = anchors h (anchor (nodes h r))"
    "stretches h' (stretch (nodes h' r)) = stretches h (stretch (nodes h r))"
  using assms by (simp_all add: sameFields_def)

lemma body_sameFields:
  assumes "sameFields h h' this"
  shows "determinePositionInCanvas h' this gpb = determinePositionInCanvas h this gpb"
    and "determineDimensionsInCanvas h' this gpb = determineDimensionsInCanvas h this gpb"
  by (simp_all add: determinePositionInCanvas_def determineDimensionsInCanvas_def
      adjustPositionForAnchor_def adjustPositionForPivot_def Let_def
      sameFields_D [OF assms] getOffsetInCanvas_sameFields [OF assms, symmetric] cong: if_cong)

lemma getBounds_frame:
  "chainAgrees n h h' this \<Longrightarrow> ui_width ui' = ui_width ui \<Longrightarrow> ui_height ui' = ui_height ui
     \<Longrightarrow> getBounds n ui' h' this = getBounds n ui h this"
proof (induction n arbitrary: this)
  case 0
  then show ?case by simp
next
  case (Suc n)
  from Suc.prems have sf: "sameFields h h' this" by simp
  then have par: "parent (nodes h' this) = parent (nodes h this)" by (simp add: sameFields_def)
  have "getParentBounds ui' h' this (\<lambda>p. getBounds n ui' h' p)
          = getParentBounds ui h this (\<lambda>p. getBounds n ui h p)"
  proof (cases "parent (nodes h this)")
    case (Node p)
    with Suc.prems have "chainAgrees n h h' p" by simp
    then have "getBounds n ui' h' p = getBounds n ui h p"
      using Suc.prems by (intro Suc.IH)
    then show ?thesis by (simp add: getParentBounds_def par Node)
  qed (use Suc.prems in \<open>simp_all add: getParentBounds_def par\<close>)
  then show ?case
    by (simp add: body_sameFields [OF sf])
qed

text \<open>
  \<^bold>\<open>Claim C8.\<close> For a node whose chain of parents is acyclic (it ends within \<open>n\<close> steps),
  \<^verbatim>\<open>getBounds\<close> returns, and a second call returns the identical outcome (the same bounds,
  or the same error): whatever depth of stack each call has at hand (\<open>m\<close> and \<open>m'\<close>, both
  at least \<open>n\<close>), and in any state \<open>(ui', h')\<close> in which the canvas size and the fields of
  the node and of its ancestors are what they were, even if other fields or other nodes
  have been written in between. \<^verbatim>\<open>getBounds\<close> and the functions it calls assign to no
  field of a node or of the UI (the object that \<^verbatim>\<open>getOffsetInCanvas\<close> fills in is its own
  copy), which is why the model gives them no state to return.
\<close>

theorem getBounds_idempotent:
  assumes "ancestor h this n = None"
    and "n \<le> m" and "n \<le> m'"
    and "chainAgrees n h h' this"
    and "ui_width ui' = ui_width ui" and "ui_height ui' = ui_height ui"
  shows "\<exists>r. getBounds m ui h this = Some r \<and> getBounds m' ui' h' this = Some r"
proof -
  from assms(1) obtain r where r: "getBounds n ui h this = Some r"
    using getBounds_returns by blast
  have "getBounds n ui' h' this = Some r"
    using getBounds_frame [OF assms(4-6)] r by simp
  then have "getBounds m' ui' h' this = Some r"
    using assms(3) by (rule getBounds_le)
  moreover have "getBounds m ui h this = Some r"
    using r assms(2) by (rule getBounds_le)
  ultimately show ?thesis by blast
qed

lemma nestedScene_heap:
  "nodes (snd nestedScene) 0 =
     \<lparr>x = Some 100, y = Some 100, width = Some 200, height = Some 100, rotation = 0, alpha = 1,
      own_visible = True, pivot = 1, anchor = 2, smoothing = True, stretch = 3, offset = 4,
      parent = Undefined, props = (\<lambda>k. Undefined)(''color'' := Str ''#ffffff'')\<rparr>"
  "nodes (snd nestedScene) 5 =
     \<lparr>x = Some 10, y = Some 10, width = Some 50, height = Some 50, rotation = 0, alpha = 1,
      own_visible = True, pivot = 6, anchor = 7, smoothing = True, stretch = 8, offset = 9,
      parent = Node 0, props = (\<lambda>k. Undefined)(''color'' := Str ''#000000'')\<rparr>"
  "pivots (snd nestedScene) (Suc 0) = \<lparr>x = 1 / 2, y = 1 / 2\<rparr>"
  "pivots (snd nestedScene) 6 = \<lparr>x = 1 / 2, y = 1 / 2\<rparr>"
  "anchors (snd nestedScene) 2 = \<lparr>x = anchors_left, y = anchors_top\<rparr>"
  "anchors (snd nestedScene) 7 = \<lparr>x = anchors_left, y = anchors_top\<rparr>"
  "stretches (snd nestedScene) 3 = \<lparr>x = False, y = False\<rparr>"
  "stretches (snd nestedScene) 8 = \<lparr>x = False, y = False\<rparr>"
  by (simp_all add: nestedScene_def createRectangle_unfold assign_plain Rectangle_new_def
      DisplayObject_new_def emptyHeap_def setNode_def Let_def)

lemma nestedSceneFaded_heap:
  "snd nestedSceneFaded = setNode (snd nestedScene) 5 (\<lambda>d. d\<lparr>alpha := 1 / 2\<rparr>)"
  "ui_width (fst nestedSceneFaded) = ui_width (fst nestedScene)"
  "ui_height (fst nestedSceneFaded) = ui_height (fst nestedScene)"
  by (simp_all add: nestedSceneFaded_def assign_plain)

lemma nestedScene_ui: "ui_width (fst nestedScene) = 1280" "ui_height (fst nestedScene) = 720"
  by (simp_all add: nestedScene_def createRectangle_unfold assign_plain ui720_def Let_def)

theorem getBounds_idempotent_witness:
  "getBounds (Suc (Suc 0)) (fst nestedScene) (snd nestedScene) 5
     = Some (Inr \<lparr>x = - 15, y = 35, width = 50, height = 50\<rparr>)
   \<and> getBounds 7 (fst nestedSceneFaded) (snd nestedSceneFaded) 5
     = Some (Inr \<lparr>x = - 15, y = 35, width = 50, height = 50\<rparr>)"
proof -
  have a: "ancestor (snd nestedScene) 5 (Suc (Suc 0)) = None"
    by (simp add: nestedScene_heap)
  have c: "chainAgrees (Suc (Suc 0)) (snd nestedScene) (snd nestedSceneFaded) 5"
    by (simp add: nestedScene_heap nestedSceneFaded_heap sameFields_def setNode_def)
  have v: "getBounds (Suc (Suc 0)) (fst nestedScene) (snd nestedScene) 5
             = Some (Inr \<lparr>x = - 15, y = 35, width = 50, height = 50\<rparr>)"
    by (simp add: nestedScene_heap nestedScene_ui getParentBounds_def
        determinePositionInCanvas_def determineDimensionsInCanvas_def adjustPositionForAnchor_def
        adjustPositionForPivot_def toNumber_def anchors_left_def anchors_top_def Let_def)
  from getBounds_idempotent [OF a le_refl _ c nestedSceneFaded_heap(2,3), of 7] v
  show ?thesis by auto
qed

section \<open>The round trip\<close>











text \<open>The width of the round trip in the arithmetic of doubles: the quotient
  \<open>1280 / 720\<close> lies in the binade of 1 and its product with 720 in the binade of 1024;
  with each result rounded to the nearest double, \<^verbatim>\<open>this.height * gameCanvasAspect\<close> is
  1280 exactly, as it is over the rationals.\<close>

lemma width_in_doubles:
  "1 \<le> (1280 / 720 :: rat) \<and> (1280 / 720 :: rat) < 2
   \<and> 1024 \<le> 720 * roundDouble 52 (1280 / 720) \<and> 720 * roundDouble 52 (1280 / 720) < 2048
   \<and> roundDouble 42 (720 * roundDouble 52 (1280 / 720)) = 1280"
  by code_simp

section \<open>Defaults\<close>

lemma DisplayObject_new_defaults:
  "hasDefaults (snd (DisplayObject_new h ps ax ay aw ah)) (fst (DisplayObject_new h ps ax ay aw ah)) (1 / 2)"
  by (simp add: hasDefaults_def DisplayObject_new_def Let_def)

lemma register_simps [simp]:
  "fst (register ui created) = fst created"
  "snd (snd (register ui created)) = snd created"
  "fst (snd (register ui created)) = ui\<lparr>displayObjects := displayObjects ui @ [fst created]\<rparr>"
  by (simp_all add: register_def)

lemma BitmapText_new_defaults:
  "hasDefaults (snd (BitmapText_new h txt scale dims ax ay)) (fst (BitmapText_new h txt scale dims ax ay)) 0"
  by (simp add: hasDefaults_def BitmapText_new_def DisplayObject_new_def Let_def)

text \<open>
  \<^bold>\<open>Claim C9.\<close> Every node that a factory method creates starts with pivot \<open>(0.5, 0.5)\<close>,
  anchor (left, top), stretch (false, false), all four offsets 0, rotation 0, alpha 1,
  visible true and no parent; a BitmapText has pivot \<open>(0, 0)\<close> instead. This holds for
  every argument, and for a sprite whether or not its asset or the image of its sheet was
  found. The default pivot enters the bounds: a rectangle created at \<open>(px, py)\<close> with size \<open>(w, hgt)\<close> has
  the bounds \<open>(px - w / 2, py - hgt / 2, w, hgt)\<close>.
\<close>

theorem factory_defaults:
  "hasDefaults (snd (snd (createSprite s imagePath assetSize ax ay aw ah)))
     (fst (createSprite s imagePath assetSize ax ay aw ah)) (1 / 2)
   \<and> hasDefaults (snd (snd (createSpriteFromSheet s imagePath sheet frameSize ax ay aw ah)))
     (fst (createSpriteFromSheet s imagePath sheet frameSize ax ay aw ah)) (1 / 2)
   \<and> hasDefaults (snd (snd (createRectangle s color ax ay aw ah)))
     (fst (createRectangle s color ax ay aw ah)) (1 / 2)
   \<and> hasDefaults (snd (snd (createText s txt font color ax ay)))
     (fst (createText s txt font color ax ay)) (1 / 2)
   \<and> hasDefaults (snd (snd (createBitmapText s txt sz dims ax ay)))
     (fst (createBitmapText s txt sz dims ax ay)) 0
   \<and> getBounds (Suc 0) (fst s) (snd (snd (createRectangle s color (Number px) (Number py) (Number w) (Number hgt))))
       (fst (createRectangle s color (Number px) (Number py) (Number w) (Number hgt)))
       = Some (Inr \<lparr>x = px - w * (1 / 2), y = py - hgt * (1 / 2), width = w, height = hgt\<rparr>)"
proof -
  have "getBounds (Suc 0) (fst s) (snd (snd (createRectangle s color (Number px) (Number py) (Number w) (Number hgt))))
       (fst (createRectangle s color (Number px) (Number py) (Number w) (Number hgt)))
       = Some (Inr \<lparr>x = px - w * (1 / 2), y = py - hgt * (1 / 2), width = w, height = hgt\<rparr>)"
    by (simp add: createRectangle_def Rectangle_new_def DisplayObject_new_def getParentBounds_def
        determinePositionInCanvas_def determineDimensionsInCanvas_def adjustPositionForAnchor_def
        adjustPositionForPivot_def toNumber_def Let_def returnR_def)
  then show ?thesis
    by (simp add: createSprite_def createSpriteFromSheet_def createRectangle_def createText_def
        createBitmapText_def Sprite_new_def Rectangle_new_def Text_new_def
        DisplayObject_new_defaults BitmapText_new_defaults Let_def del: getBounds.simps)
qed

section \<open>Visibility\<close>


section \<open>The draw pass\<close>






section \<open>Scenes with a hidden parent\<close>

lemma assign_visible:
  "proxied_visible (Suc (Suc 0)) (snd s) this = Some v \<Longrightarrow>
     assign s this (Set_visible w) =
       ((if v \<noteq> w then (fst s)\<lparr>shouldReDraw := True\<rparr> else fst s),
        setNode (snd s) this (\<lambda>d. d\<lparr>own_visible := w\<rparr>))"
  by (simp add: assign_def setter_def getter_def del: proxied_visible.simps)



lemmas resolver_defs =
  getParentBounds_def determinePositionInCanvas_def determineDimensionsInCanvas_def
  adjustPositionForAnchor_def adjustPositionForPivot_def getOffsetInCanvas_def offsetValue_def
  toNumber_def anchors_left_def anchors_top_def anchors_right_def anchors_bottom_def
  anchors_center_def Let_def








section \<open>Which callbacks a click calls\<close>

lemma collect_renderable:
  "\<forall>l\<in>set ls. renderable n ui h (displayObject l) \<Longrightarrow>
     collect n ui h c ls callbackQueue =
       Some (Inr (callbackQueue @ map callback (filter (hit n ui h c) ls)))"
proof (induction ls arbitrary: callbackQueue)
  case Nil
  then show ?case by (simp add: returnR_def)
next
  case (Cons l ls)
  from Cons.prems have l: "renderable n ui h (displayObject l)"
    and ls: "\<forall>l\<in>set ls. renderable n ui h (displayObject l)"
    by simp_all
  from l consider "proxied_visible n h (displayObject l) = Some False"
    | b where "proxied_visible n h (displayObject l) = Some True"
        "getBounds n ui h (displayObject l) = Some (Inr b)"
    by (auto simp: renderable_def split: option.splits if_splits sum.splits)
  then show ?case
  proof cases
    case 1
    then show ?thesis
      by (simp add: shouldReceiveEvents_def hit_def Cons.IH [OF ls])
  next
    case 2
    then show ?thesis
      by (simp add: shouldReceiveEvents_def hit_def Cons.IH [OF ls])
  qed
qed

lemma fire_returning:
  "fire (returning f) cbs called t = Some (None, called @ cbs, foldl (\<lambda>t cb. f cb t) t cbs)"
  by (induction cbs arbitrary: called t) (simp_all add: returning_def)

lemma fire_chain:
  "chain run pre ts \<Longrightarrow>
     fire run (pre @ post) called (hd ts) = fire run post (called @ pre) (last ts)"
proof (induction run pre ts arbitrary: called rule: chain.induct)
  case (1 run ts)
  then obtain t where "ts = [t]" by (auto simp: length_Suc_conv)
  then show ?case by simp
next
  case (2 run cb cbs t t' ts)
  then show ?case by simp
qed simp_all


text \<open>When every listener's node can be read, the handler calls the callbacks of the
  listeners that are hit in the state in which the event arrives.\<close>

lemma clickHandler_dispatch:
  assumes "eventCoords (fst s) event = (ui, Some (px, py))"
    and "\<not> (listeningToTouchEvents ui \<and> isMouseEvent event)"
    and "windowToUISpace ui px py = Inr c"
    and "\<forall>l\<in>set (click ui). renderable n ui (snd s) (displayObject l)"
  shows "clickHandler n run s event =
           fire run (map callback (filter (hit n ui (snd s) c) (click ui))) [] (ui, snd s)"
  using assms(1-3) collect_renderable [OF assms(4), of c "[]"]
  by (auto simp: clickHandler_def)

text \<open>Whatever the callbacks do when they return, the same callbacks are called (or the
  same error ends the handler): the queue is complete before the first of them runs.\<close>

lemma clickHandler_called_independent:
  "map_option (\<lambda>(thrown, called, t). (thrown, called)) (clickHandler n (returning f) s event)
     = map_option (\<lambda>(thrown, called, t). (thrown, called)) (clickHandler n (returning g) s event)"
  by (auto simp: clickHandler_def fire_returning split: prod.splits option.splits sum.splits)

text \<open>
  \<^bold>\<open>Claim C2.\<close> For a pointer event that the handler dispatches (it has coordinates and is
  not a mouse event that follows a touch), the queue is made of the callbacks of the
  listeners whose node reads visible and whose bounds contain the point \<^emph>\<open>in the state in
  which the event arrives\<close> \<open>(ui, snd s)\<close>, in the order of registration; it is complete
  before the first callback is called, so that it does not depend on what the callbacks
  do. Then the callbacks of the queue are called in that order, each in the state that the
  one before has left:

  \<^item> when the callbacks return (\<open>returning f\<close>, with \<open>f\<close> arbitrary), every callback of the
    queue is called, in the order of the queue, and the handler leaves the state that
    the calls, made one after the other from the left, produce;

  \<^item> for arbitrary callbacks \<open>run\<close>: when the first \<open>k\<close> callbacks of the queue return, with
    the states \<open>ts\<close> between them, then either these are all, and the handler returns having
    called the whole queue; or the next callback throws, and the handler ends by that throw
    having called the first \<open>k + 1\<close> callbacks and no other; or the next callback does not
    return, and neither does the handler.

  The witness is the scenario of the specification: A = (0, 0, 100, 100) registered first,
  B = (50, 50, 100, 100), a click at (60, 60), and the callback of A sets
  \<^verbatim>\<open>B.visible = false\<close>. Both callbacks are called, that of A first: B is hidden afterwards,
  and the callback of B has found B hidden. It also has the variant in which the callback
  of A throws after its assignment: the handler ends by that throw, having called the
  callback of A only.
\<close>

theorem clickHandler_queue_first:
  assumes "eventCoords (fst s) event = (ui, Some (px, py))"
    and "\<not> (listeningToTouchEvents ui \<and> isMouseEvent event)"
    and "windowToUISpace ui px py = Inr c"
    and "\<forall>l\<in>set (click ui). renderable n ui (snd s) (displayObject l)"
    and "queue = map callback (filter (hit n ui (snd s) c) (click ui))"
  shows "clickHandler n (returning f) s event
           = Some (None, queue, foldl (\<lambda>t cb. f cb t) (ui, snd s) queue)
         \<and> (\<forall>k ts. chain run (take k queue) ts \<and> hd ts = (ui, snd s) \<longrightarrow>
               (length queue \<le> k \<longrightarrow>
                  clickHandler n run s event = Some (None, queue, last ts))
               \<and> (k < length queue \<longrightarrow>
                    (\<forall>e t'. run (queue ! k) (last ts) = Some (Some e, t') \<longrightarrow>
                       clickHandler n run s event = Some (Some e, take (Suc k) queue, t'))
                    \<and> (run (queue ! k) (last ts) = None \<longrightarrow>
                         clickHandler n run s event = None)))"
proof (intro conjI allI impI)
  show "clickHandler n (returning f) s event
          = Some (None, queue, foldl (\<lambda>t cb. f cb t) (ui, snd s) queue)"
    using clickHandler_dispatch [OF assms(1-4), of "returning f"]
    by (simp add: assms(5) fire_returning)
next
  fix k ts
  assume states: "chain run (take k queue) ts \<and> hd ts = (ui, snd s)"
  then have "chain run (take k queue) ts" ..
  then have "fire run (take k queue @ drop k queue) [] (hd ts)
               = fire run (drop k queue) ([] @ take k queue) (last ts)"
    by (rule fire_chain)
  with states clickHandler_dispatch [OF assms(1-4), of run]
  have rest: "clickHandler n run s event = fire run (drop k queue) (take k queue) (last ts)"
    by (simp add: assms(5))
  {
    assume "length queue \<le> k"
    with rest show "clickHandler n run s event = Some (None, queue, last ts)" by simp
  }
  {
    fix e t'
    assume "k < length queue" and "run (queue ! k) (last ts) = Some (Some e, t')"
    with rest show "clickHandler n run s event = Some (Some e, take (Suc k) queue, t')"
      by (simp add: Cons_nth_drop_Suc [symmetric] take_Suc_conv_app_nth)
  }
  {
    assume "k < length queue" and "run (queue ! k) (last ts) = None"
    with rest show "clickHandler n run s event = None"
      by (simp add: Cons_nth_drop_Suc [symmetric])
  }
qed

lemma overlapScene_facts:
  "fst overlapScene =
     ui720\<lparr>displayObjects := [0, 5],
           click := [\<lparr>callback = 0, displayObject = 0\<rparr>, \<lparr>callback = 1, displayObject = 5\<rparr>]\<rparr>"
  "nodes (snd overlapScene) 0 =
     \<lparr>x = Some 0, y = Some 0, width = Some 100, height = Some 100, rotation = 0, alpha = 1,
      own_visible = True, pivot = 1, anchor = 2, smoothing = True, stretch = 3, offset = 4,
      parent = Undefined, props = (\<lambda>k. Undefined)(''color'' := Str ''#ffffff'')\<rparr>"
  "nodes (snd overlapScene) 5 =
     \<lparr>x = Some 50, y = Some 50, width = Some 100, height = Some 100, rotation = 0, alpha = 1,
      own_visible = True, pivot = 6, anchor = 7, smoothing = True, stretch = 8, offset = 9,
      parent = Undefined, props = (\<lambda>k. Undefined)(''color'' := Str ''#000000'')\<rparr>"
  "pivots (snd overlapScene) (Suc 0) = \<lparr>x = 0, y = 0\<rparr>"
  "pivots (snd overlapScene) 6 = \<lparr>x = 0, y = 0\<rparr>"
  "anchors (snd overlapScene) 2 = \<lparr>x = anchors_left, y = anchors_top\<rparr>"
  "anchors (snd overlapScene) 7 = \<lparr>x = anchors_left, y = anchors_top\<rparr>"
  "stretches (snd overlapScene) 3 = \<lparr>x = False, y = False\<rparr>"
  "stretches (snd overlapScene) 8 = \<lparr>x = False, y = False\<rparr>"
  by (simp_all add: overlapScene_def createRectangle_unfold Rectangle_new_def DisplayObject_new_def
      emptyHeap_def setPivot_def onClick_def addEventListener_def ui720_def Let_def)

lemma overlapScene_visible:
  "proxied_visible (Suc (Suc 0)) (snd overlapScene) 0 = Some True"
  "proxied_visible (Suc (Suc 0)) (snd overlapScene) 5 = Some True"
  by (simp_all add: overlapScene_facts)

lemma overlapScene_bounds:
  "getBounds (Suc (Suc 0)) (fst overlapScene) (snd overlapScene) 0
     = Some (Inr \<lparr>x = 0, y = 0, width = 100, height = 100\<rparr>)"
  "getBounds (Suc (Suc 0)) (fst overlapScene) (snd overlapScene) 5
     = Some (Inr \<lparr>x = 50, y = 50, width = 100, height = 100\<rparr>)"
  by (simp_all add: overlapScene_facts resolver_defs ui720_def)

lemma overlapScene_first_call:
  "overlapCallbacks 0 overlapScene =
     ((fst overlapScene)\<lparr>shouldReDraw := True\<rparr>,
      setNode (snd overlapScene) 5 (\<lambda>d. d\<lparr>own_visible := False\<rparr>))"
  by (simp add: overlapCallbacks_def assign_visible [OF overlapScene_visible(2)])

lemma overlapScene_after_first:
  "proxied_visible (Suc (Suc 0)) (snd (overlapCallbacks 0 overlapScene)) 5 = Some False"
  by (simp add: overlapScene_first_call setNode_def overlapScene_facts)

lemma overlapScene_second_call:
  "overlapCallbacks (Suc 0) (overlapCallbacks 0 overlapScene) =
     ((fst overlapScene)\<lparr>shouldReDraw := True\<rparr>,
      setNode (setNode (snd overlapScene) 5 (\<lambda>d. d\<lparr>own_visible := False\<rparr>)) 0 (\<lambda>d. d\<lparr>x := Some 2\<rparr>))"
proof -
  have "overlapCallbacks (Suc 0) (overlapCallbacks 0 overlapScene)
          = assign (overlapCallbacks 0 overlapScene) 0 (Set_x (Some 2))"
    using overlapScene_after_first by (simp add: overlapCallbacks_def del: proxied_visible.simps)
  then show ?thesis
    by (simp add: overlapScene_first_call assign_def setter_def getter_def)
qed

theorem clickHandler_queue_first_witness:
  "proxied_visible (Suc (Suc 0)) (snd overlapScene) 5 = Some True
   \<and> x (nodes (snd overlapScene) 0) = Some 0
   \<and> clickHandler (Suc (Suc 0)) (returning overlapCallbacks) overlapScene (MouseEvent 60 60)
       = Some (None, [0, Suc 0], overlapCallbacks (Suc 0) (overlapCallbacks 0 overlapScene))
   \<and> proxied_visible (Suc (Suc 0))
        (snd (overlapCallbacks (Suc 0) (overlapCallbacks 0 overlapScene))) 5 = Some False
   \<and> x (nodes (snd (overlapCallbacks (Suc 0) (overlapCallbacks 0 overlapScene))) 0) = Some 2
   \<and> clickHandler (Suc (Suc 0)) throwingCallbacks overlapScene (MouseEvent 60 60)
       = Some (Some TypeError, [0], overlapCallbacks 0 overlapScene)"
proof -
  let ?ui = "fst overlapScene" and ?h = "snd overlapScene"
  let ?c = "\<lparr>x = 60, y = 60\<rparr> :: rat xy"
  have ui: "click ?ui = [\<lparr>callback = 0, displayObject = 0\<rparr>, \<lparr>callback = Suc 0, displayObject = 5\<rparr>]"
    "listeningToTouchEvents ?ui = False" "gameCanvasRect ?ui = (0, 0, 720)" "ui_height ?ui = 720"
    by (simp_all add: overlapScene_facts(1) ui720_def)
  have 1: "eventCoords (fst overlapScene) (MouseEvent 60 60) = (?ui, Some (60, 60))" by simp
  have 2: "\<not> (listeningToTouchEvents ?ui \<and> isMouseEvent (MouseEvent 60 60))" by (simp add: ui)
  have 3: "windowToUISpace ?ui 60 60 = Inr ?c" by (simp add: windowToUISpace_def ui)
  have 4: "\<forall>l\<in>set (click ?ui). renderable (Suc (Suc 0)) ?ui ?h (displayObject l)"
    by (simp add: ui renderable_def overlapScene_visible overlapScene_bounds
        del: proxied_visible.simps getBounds.simps)
  have 5: "[0, Suc 0] = map callback (filter (hit (Suc (Suc 0)) ?ui ?h ?c) (click ?ui))"
    by (simp add: ui hit_def overlapScene_visible overlapScene_bounds isInBoundingBox_def
        del: proxied_visible.simps getBounds.simps)
  note inst = clickHandler_queue_first [OF 1 2 3 4 5, of overlapCallbacks throwingCallbacks]
  from inst have returns:
    "clickHandler (Suc (Suc 0)) (returning overlapCallbacks) overlapScene (MouseEvent 60 60)
       = Some (None, [0, Suc 0], overlapCallbacks (Suc 0) (overlapCallbacks 0 overlapScene))"
    by simp
  have "chain throwingCallbacks (take 0 [0, Suc 0]) [overlapScene] \<and> hd [overlapScene] = (?ui, ?h)"
    by simp
  moreover have "throwingCallbacks ([0, Suc 0] ! 0) (last [overlapScene])
                   = Some (Some TypeError, overlapCallbacks 0 overlapScene)"
    by (simp add: throwingCallbacks_def overlapCallbacks_def)
  ultimately have throws:
    "clickHandler (Suc (Suc 0)) throwingCallbacks overlapScene (MouseEvent 60 60)
       = Some (Some TypeError, [0], overlapCallbacks 0 overlapScene)"
    using inst by (metis length_Cons list.size(3) take_Suc_Cons take_0 zero_less_Suc)
  have "x (nodes (snd (overlapCallbacks (Suc 0) (overlapCallbacks 0 overlapScene))) 0) = Some 2"
    and "proxied_visible (Suc (Suc 0))
           (snd (overlapCallbacks (Suc 0) (overlapCallbacks 0 overlapScene))) 5 = Some False"
    by (simp_all add: overlapScene_second_call setNode_def overlapScene_facts)
  moreover have "x (nodes (snd overlapScene) 0) = Some 0"
    by (simp add: overlapScene_facts)
  ultimately show ?thesis
    using returns throws overlapScene_visible(2) by blast
qed







section \<open>Reads, writes and the redraw flag\<close>

lemma propName_allProperties: "map propName allProperties = dirtyProperties"
  by (simp add: allProperties_def dirtyProperties_def)

lemma allProperties_complete: "p \<in> set allProperties"
  by (cases p) (simp_all add: allProperties_def)

text \<open>Every observed property is the target of an assignment.\<close>

lemma target_onto: "\<exists>w. target w = p"
proof (cases p)
  case P_x then show ?thesis using target.simps(1) by blast
next
  case P_y then show ?thesis using target.simps(2) by blast
next
  case P_width then show ?thesis using target.simps(3) by blast
next
  case P_height then show ?thesis using target.simps(4) by blast
next
  case P_rotation then show ?thesis using target.simps(5) by blast
next
  case P_alpha then show ?thesis using target.simps(6) by blast
next
  case P_visible then show ?thesis using target.simps(7) by blast
next
  case P_pivot then show ?thesis using target.simps(8) by blast
next
  case P_anchor then show ?thesis using target.simps(9) by blast
next
  case P_smoothing then show ?thesis using target.simps(10) by blast
next
  case P_stretch then show ?thesis using target.simps(11) by blast
next
  case P_offset then show ?thesis using target.simps(12) by blast
next
  case P_text then show ?thesis using target.simps(13) by blast
next
  case P_scale then show ?thesis using target.simps(14) by blast
next
  case P_parent then show ?thesis using target.simps(15) by blast
next
  case P_textAlign then show ?thesis using target.simps(16) by blast
next
  case P_assetPath then show ?thesis using target.simps(17) by blast
next
  case P_color then show ?thesis using target.simps(18) by blast
next
  case P_left then show ?thesis using target.simps(19) by blast
next
  case P_right then show ?thesis using target.simps(20) by blast
next
  case P_up then show ?thesis using target.simps(21) by blast
next
  case P_down then show ?thesis using target.simps(22) by blast
next
  case P_ActiveInvoke then show ?thesis using target.simps(23) by blast
qed












end
